theory Spec2Isabelle
  imports Complex_Main
begin

section \<open>Heating optimisation scripts: the learning cycle and the room setpoint\<close>

text \<open>
  The development embeds two ioBroker scripts of the repository:
  \<^item> the learning script (``Heating Optimization (Learning Script)'', second document of
    \<^verbatim>\<open>iobroker_heating_weather_data_analyse.js\<close>), whose \<^verbatim>\<open>main\<close> reads the history of the
    flow/return spread, computes a stability score and adjusts the learned controller
    performance (\<^verbatim>\<open>Reglerleistung\<close>);
  \<^item> the single-room control script, whose \<^verbatim>\<open>main\<close> uses the learned factor in its weather
    compensation.

  The learning step is embedded twice. In the first embedding JavaScript numbers are
  exact reals: rounding, overflow and the values \<^verbatim>\<open>NaN\<close> and \<^verbatim>\<open>Infinity\<close> are outside the
  type \<^typ>\<open>real\<close>, and a division by zero yields \<open>None\<close>. The bounds of the factor, the
  absence of error cases, the aborts of the cycle and the default update are stated on
  it. In the second embedding every operation is rounded to IEEE 754 binary64; the
  properties that depend on the computed mean and stability, and so on rounding and
  overflow, are stated on that one.
\<close>

subsection \<open>JavaScript values and helpers\<close>

text \<open>The value (\<^verbatim>\<open>.val\<close>) of a state as the scripts inspect it: null, a boolean or a number.\<close>

datatype jsval = JNull | JBool bool | JNum real

text \<open>Truthiness, as used by \<^verbatim>\<open>!x\<close>, \<^verbatim>\<open>x ? a : b\<close> and \<^verbatim>\<open>x || d\<close>.\<close>

fun truthy :: "jsval \<Rightarrow> bool" where
  "truthy JNull = False"
| "truthy (JBool b) = b"
| "truthy (JNum x) = (x \<noteq> 0)"

text \<open>\<^verbatim>\<open>a / b\<close>: for \<open>b = 0\<close> JavaScript yields \<^verbatim>\<open>NaN\<close> or an infinity, which is no real.\<close>

definition js_div :: "real \<Rightarrow> real \<Rightarrow> real option" where
  "js_div a b = (if b = 0 then None else Some (a / b))"

text \<open>\<^verbatim>\<open>xs.reduce((a, b) => a + b, 0)\<close>: a left fold from 0.\<close>

definition reduce_add :: "real list \<Rightarrow> real" where
  "reduce_add xs = foldl (\<lambda>a b. a + b) 0 xs"

text \<open>
  \<^verbatim>\<open>xs.slice(-n)\<close> for a natural number \<open>n\<close>: the last \<open>n\<close> elements, the whole array when it
  is shorter; \<^verbatim>\<open>slice(-0)\<close> is \<^verbatim>\<open>slice(0)\<close>, the whole array.
\<close>

definition slice_last :: "nat \<Rightarrow> 'a list \<Rightarrow> 'a list" where
  "slice_last n xs = (if n = 0 then xs else drop (length xs - n) xs)"

text \<open>
  \<^verbatim>\<open>parseFloat(x.toFixed(4))\<close>: the decimal with four fractional digits nearest to \<open>x\<close>, the
  larger magnitude on a tie; the sign is handled apart.
\<close>

definition toFixed4 :: "real \<Rightarrow> real" where
  "toFixed4 x =
     (if x < 0 then - (real_of_int \<lfloor>(- x) * 10000 + 1 / 2\<rfloor> / 10000)
      else real_of_int \<lfloor>x * 10000 + 1 / 2\<rfloor> / 10000)"

subsection \<open>The learning script: configuration and state\<close>

record config =
  autoCreateOutputStates :: bool
  simulationAktiv :: bool
  historyHours :: nat
  stabilityCalculationHours :: nat
  basisLernrate :: real
  minSpreizungForLearning :: real
  simulationValues_heizperiode :: bool
  simulationValues_aktuelleSpreizung :: real

definition CONFIG :: config where
  "CONFIG = \<lparr> autoCreateOutputStates = True, simulationAktiv = False, historyHours = 48,
     stabilityCalculationHours = 3, basisLernrate = 0.02, minSpreizungForLearning = 2,
     simulationValues_heizperiode = True, simulationValues_aktuelleSpreizung = 5.5 \<rparr>"

text \<open>
  The datapoints of the host's state store that the learning script touches; \<open>None\<close> is a
  datapoint that does not exist (\<^verbatim>\<open>getStateAsync\<close> returns null). The two output
  datapoints are of type number.
\<close>

record states =
  svHeizperiodeId :: "jsval option"
  spreizungSensorId :: "jsval option"
  reglerleistungId :: "real option"
  systemStabilitaetId :: "real option"

text \<open>
  The answer of \<^verbatim>\<open>sendToAsync(influxdb, 'getHistory', ...)\<close>: the call is rejected, or it
  returns an object with a (truthy or falsy) \<^verbatim>\<open>error\<close> and an optional \<^verbatim>\<open>result\<close> array, of
  which only the \<^verbatim>\<open>val\<close> of every item is used (\<open>None\<close> is null).
\<close>

datatype history_reply =
  Rejected
| Reply (error: bool) (result: "real option list option")

subsection \<open>Step 2: the history query\<close>

text \<open>\<^verbatim>\<open>result.map(item => item.val).filter(v => v !== null && v >= 0)\<close>\<close>

fun sanitize :: "real option list \<Rightarrow> real list" where
  "sanitize [] = []"
| "sanitize (None # items) = sanitize items"
| "sanitize (Some v # items) = (if v \<ge> 0 then v # sanitize items else sanitize items)"

text \<open>The body of the \<^verbatim>\<open>try\<close> block; \<open>None\<close> is the \<^verbatim>\<open>catch\<close> branch, which logs and returns.\<close>

definition queryHistory :: "history_reply \<Rightarrow> real list option" where
  "queryHistory reply =
     (case reply of
        Rejected \<Rightarrow> None
      | Reply err res \<Rightarrow>
          if err then None
          else (case res of
                  None \<Rightarrow> None
                | Some items \<Rightarrow> if length items = 0 then None else Some (sanitize items)))"

subsection \<open>Step 3: system stability\<close>

text \<open>Mean, variance and stability of the window, in this order.\<close>

definition calculateStability :: "real list \<Rightarrow> (real \<times> real \<times> real) option" where
  "calculateStability stabilityWindow =
     (case js_div (reduce_add stabilityWindow) (real (length stabilityWindow)) of
        None \<Rightarrow> None
      | Some mean \<Rightarrow>
          (case js_div (reduce_add (map (\<lambda>x. (x - mean) ^ 2) stabilityWindow))
                       (real (length stabilityWindow)) of
             None \<Rightarrow> None
           | Some variance \<Rightarrow>
               (case js_div 1 (1 + variance) of
                  None \<Rightarrow> None
                | Some stability \<Rightarrow> Some (mean, variance, stability))))"

subsection \<open>Step 4: the learning logic\<close>

text \<open>
  The diagnostic label \<^verbatim>\<open>adjustmentCase\<close>: ``Default-Convergence'', ``Case 1: System
  sluggish/unstable'', ``Case 2: System overreacting'', ``Case 3: System in optimal range''.
\<close>

datatype adjustmentCase = Default_Convergence | Case1 | Case2 | Case3

text \<open>The update of the default branch.\<close>

definition defaultConvergence :: "config \<Rightarrow> real \<Rightarrow> real \<Rightarrow> real" where
  "defaultConvergence cfg stability newReglerleistung =
     newReglerleistung + (1 - newReglerleistung) * (basisLernrate cfg * stability)"

text \<open>The \<^verbatim>\<open>if / else if\<close> chain, before the hard limits.\<close>

definition learn :: "config \<Rightarrow> real \<Rightarrow> real \<Rightarrow> real \<Rightarrow> real \<times> adjustmentCase" where
  "learn cfg avg3h stability newReglerleistung =
     (if avg3h < 7 \<and> stability < 0.4 then
        (newReglerleistung + ((7 - avg3h) / 7) * (basisLernrate cfg * 2), Case1)
      else if avg3h > 16 \<and> stability > 0.6 then
        (newReglerleistung * 0.95, Case2)
      else if avg3h \<ge> 8 \<and> avg3h \<le> 12 \<and> stability > 0.7 then
        (newReglerleistung * 0.99 + 0.01, Case3)
      else
        (defaultConvergence cfg stability newReglerleistung, Default_Convergence))"

text \<open>The hard limits of the performance factor.\<close>

definition hardLimits :: "real \<Rightarrow> real" where
  "hardLimits newReglerleistung =
     (let r = (if newReglerleistung < 0.3 then 0.3 else newReglerleistung)
      in if r > 1.7 then 1.7 else r)"

text \<open>
  Steps 3 and 4 on a window and the state read from the performance-factor datapoint
  (\<open>None\<close> when it does not exist): the stability, the limited new factor and the label.
\<close>

definition learningStep ::
  "config \<Rightarrow> real list \<Rightarrow> real option \<Rightarrow> (real \<times> real \<times> adjustmentCase) option" where
  "learningStep cfg stabilityWindow currentReglerleistungState =
     (case calculateStability stabilityWindow of
        None \<Rightarrow> None
      | Some (mean, variance, stability) \<Rightarrow>
          (let start = (case currentReglerleistungState of Some v \<Rightarrow> v | None \<Rightarrow> 1);
               (newReglerleistung, adjustment) = learn cfg mean stability start
           in Some (stability, hardLimits newReglerleistung, adjustment)))"

subsection \<open>The learning cycle\<close>

text \<open>\<^verbatim>\<open>typeof aktuelleSpreizung !== 'number' || aktuelleSpreizung < CONFIG.minSpreizungForLearning\<close>\<close>

fun spreizungTooLow :: "config \<Rightarrow> jsval \<Rightarrow> bool" where
  "spreizungTooLow cfg (JNum x) = (x < minSpreizungForLearning cfg)"
| "spreizungTooLow cfg v = True"

text \<open>
  \<^verbatim>\<open>main\<close> of the learning script, from the state store and the answer of the history
  query to the state store after the cycle. Logging is left out. The result \<open>None\<close> stands
  for a cycle that would write a value that is no real number; \<open>main_total\<close> below shows
  that it never happens.
\<close>

definition main :: "config \<Rightarrow> states \<Rightarrow> history_reply \<Rightarrow> states option" where
  "main cfg st reply =
     (let heizperiodeAktiv =
            (if simulationAktiv cfg then JBool (simulationValues_heizperiode cfg)
             else (case svHeizperiodeId st of Some v \<Rightarrow> v | None \<Rightarrow> JBool False));
          aktuelleSpreizung =
            (if simulationAktiv cfg then JNum (simulationValues_aktuelleSpreizung cfg)
             else (case spreizungSensorId st of Some v \<Rightarrow> v | None \<Rightarrow> JNum 0))
      in if \<not> truthy heizperiodeAktiv then Some st
         else if spreizungTooLow cfg aktuelleSpreizung then Some st
         else (case queryHistory reply of
                 None \<Rightarrow> Some st
               | Some historyData \<Rightarrow>
                   if length historyData < 3 then Some st
                   else (case learningStep cfg
                                 (slice_last (stabilityCalculationHours cfg * 2) historyData)
                                 (reglerleistungId st) of
                           None \<Rightarrow> None
                         | Some (stability, newReglerleistung, adjustment) \<Rightarrow>
                             if \<not> simulationAktiv cfg then
                               Some (st\<lparr> systemStabilitaetId := Some (toFixed4 stability),
                                         reglerleistungId := Some (toFixed4 newReglerleistung) \<rparr>)
                             else Some st)))"

subsection \<open>The room script: base temperature and weather compensation\<close>

text \<open>
  The part of the room script's \<^verbatim>\<open>main\<close> up to the weather compensation: the fetched
  states (\<open>None\<close> or \<open>JNull\<close> for a state that does not exist), the helper values of 2.2 and
  2.3, the base temperature of 3 and the first module of 4. The later modules (humidity,
  mould protection, comfort, heating load, manual offset) add their own offsets to the
  setpoint and do not use the learned factor.
\<close>

record room_config =
  nachtschaltungNutzen :: bool
  tuerSensorNutzen :: bool
  tempFensterOffen :: real
  tempHeizperiodeAus :: real
  aussenTempNeutral :: real
  heizkurvenfaktor :: real

definition ROOM_CONFIG :: room_config where
  "ROOM_CONFIG = \<lparr> nachtschaltungNutzen = True, tuerSensorNutzen = True,
     tempFensterOffen = 12, tempHeizperiodeAus = 4.5, aussenTempNeutral = 12,
     heizkurvenfaktor = 0.25 \<rparr>"

record room_states =
  heizPeriode :: jsval
  anwesenheit :: jsval
  nachtschaltung :: jsval
  sollTempAnwesend :: "real option"
  sollTempAbwesend :: "real option"
  reglerleistung :: "real option"
  fensterKontakte :: "jsval list"
  tuerSensor :: jsval
  aussenTempSensor :: "real option"

text \<open>\<^verbatim>\<open>x || d\<close> on a number or null: \<open>d\<close> replaces null and also 0.\<close>

definition or_default :: "real option \<Rightarrow> real \<Rightarrow> real" where
  "or_default x d = (case x of None \<Rightarrow> d | Some v \<Rightarrow> if v = 0 then d else v)"

definition aussenSensorOK :: "room_states \<Rightarrow> bool" where
  "aussenSensorOK states =
     (case aussenTempSensor states of None \<Rightarrow> False | Some t \<Rightarrow> t > - 30 \<and> t < 60)"

definition fensterIstOffen :: "room_states \<Rightarrow> bool" where
  "fensterIstOffen states =
     list_ex (\<lambda>state. state = JBool True \<or> state = JNum 1) (fensterKontakte states)"

definition tuerIstGeschlossen :: "room_config \<Rightarrow> room_states \<Rightarrow> bool" where
  "tuerIstGeschlossen cfg states = (tuerSensorNutzen cfg \<and> tuerSensor states = JNum 0)"

text \<open>Section 3: the base temperature and the flag \<^verbatim>\<open>istSonderfall\<close>.\<close>

definition baseTemperature :: "room_config \<Rightarrow> room_states \<Rightarrow> real \<times> bool" where
  "baseTemperature cfg states =
     (let sollTempAbwesend' = or_default (sollTempAbwesend states) 16;
          sollTempAnwesend' =
            (if nachtschaltungNutzen cfg \<and> truthy (nachtschaltung states) then sollTempAbwesend'
             else or_default (sollTempAnwesend states) 21)
      in if truthy (heizPeriode states) then
           (if fensterIstOffen states then (tempFensterOffen cfg, True)
            else if truthy (anwesenheit states) then
              ((if tuerSensorNutzen cfg \<and> \<not> tuerIstGeschlossen cfg states
                then sollTempAbwesend' else sollTempAnwesend'), False)
            else (sollTempAbwesend', False))
         else (tempHeizperiodeAus cfg, True))"

text \<open>Section 4, first module: the weather compensation on the current setpoint.\<close>

definition weatherCompensation :: "room_config \<Rightarrow> room_states \<Rightarrow> real \<Rightarrow> real" where
  "weatherCompensation cfg states neueSollTemp =
     (let reglerleistung' = or_default (reglerleistung states) 1
      in if aussenSensorOK states then
           (case aussenTempSensor states of
              None \<Rightarrow> neueSollTemp
            | Some t \<Rightarrow>
                if t < aussenTempNeutral cfg then
                  neueSollTemp + (aussenTempNeutral cfg - t) * (heizkurvenfaktor cfg * reglerleistung')
                else neueSollTemp)
         else neueSollTemp)"

definition setpointAfterWeather :: "room_config \<Rightarrow> room_states \<Rightarrow> real" where
  "setpointAfterWeather cfg states =
     (let (neueSollTemp, istSonderfall) = baseTemperature cfg states
      in if \<not> istSonderfall then weatherCompensation cfg states neueSollTemp
         else neueSollTemp)"

subsection \<open>Binary64 arithmetic\<close>

text \<open>
  The numbers of the script are IEEE 754 binary64 values. A value is a finite real, an
  infinity or \<^verbatim>\<open>NaN\<close>; every arithmetic operation computes the exact result and rounds it
  to the nearest representable number, ties to even, with overflow to an infinity. The
  sign of a zero is not modelled: the script divides only by the window length, by 7 and
  by 1 + variance.

  \<open>expo\<close> is the binade of a real (at least -1022, where the subnormal numbers begin),
  \<open>ulp\<close> the spacing of the representable numbers in that binade, \<open>nearest\<close> the rounding
  with an unbounded exponent, and \<open>rnd\<close> the rounding with overflow. The binade is given
  by the logarithm; \<open>rnd_eval\<close> and \<open>rnd_exact\<close> below evaluate a rounding from the binade
  of its argument, or from a representation of it as an integer times a power of two.
\<close>

datatype double = Fin real | PInf | NInf | NaN

definition round_even :: "real \<Rightarrow> int" where
  "round_even y =
     (if y - of_int \<lfloor>y\<rfloor> < 1 / 2 then \<lfloor>y\<rfloor>
      else if 1 / 2 < y - of_int \<lfloor>y\<rfloor> then \<lfloor>y\<rfloor> + 1
      else if even \<lfloor>y\<rfloor> then \<lfloor>y\<rfloor> else \<lfloor>y\<rfloor> + 1)"

definition expo :: "real \<Rightarrow> int" where
  "expo x = max (- 1022) \<lfloor>log 2 \<bar>x\<bar>\<rfloor>"

definition ulp :: "real \<Rightarrow> real" where
  "ulp x = 2 powi (expo x - 52)"

definition nearest :: "real \<Rightarrow> real" where
  "nearest x = of_int (round_even (x / ulp x)) * ulp x"

definition overflow :: real where
  "overflow = 2 ^ 1024"

definition rnd :: "real \<Rightarrow> double" where
  "rnd x =
     (if x = 0 then Fin 0
      else if overflow \<le> \<bar>nearest x\<bar> then (if 0 < x then PInf else NInf)
      else Fin (nearest x))"

fun fneg :: "double \<Rightarrow> double" where
  "fneg (Fin a) = Fin (- a)"
| "fneg PInf = NInf"
| "fneg NInf = PInf"
| "fneg NaN = NaN"

fun fadd :: "double \<Rightarrow> double \<Rightarrow> double" where
  "fadd (Fin a) (Fin b) = rnd (a + b)"
| "fadd NaN y = NaN"
| "fadd x NaN = NaN"
| "fadd PInf NInf = NaN"
| "fadd NInf PInf = NaN"
| "fadd PInf y = PInf"
| "fadd NInf y = NInf"
| "fadd x PInf = PInf"
| "fadd x NInf = NInf"

definition fsub :: "double \<Rightarrow> double \<Rightarrow> double" where
  "fsub x y = fadd x (fneg y)"

fun fmul :: "double \<Rightarrow> double \<Rightarrow> double" where
  "fmul (Fin a) (Fin b) = rnd (a * b)"
| "fmul NaN y = NaN"
| "fmul x NaN = NaN"
| "fmul (Fin a) PInf = (if a = 0 then NaN else if 0 < a then PInf else NInf)"
| "fmul (Fin a) NInf = (if a = 0 then NaN else if 0 < a then NInf else PInf)"
| "fmul PInf (Fin b) = (if b = 0 then NaN else if 0 < b then PInf else NInf)"
| "fmul NInf (Fin b) = (if b = 0 then NaN else if 0 < b then NInf else PInf)"
| "fmul PInf PInf = PInf"
| "fmul PInf NInf = NInf"
| "fmul NInf PInf = NInf"
| "fmul NInf NInf = PInf"

fun fdiv :: "double \<Rightarrow> double \<Rightarrow> double" where
  "fdiv (Fin a) (Fin b) =
     (if b = 0 then (if a = 0 then NaN else if 0 < a then PInf else NInf) else rnd (a / b))"
| "fdiv NaN y = NaN"
| "fdiv x NaN = NaN"
| "fdiv (Fin a) PInf = Fin 0"
| "fdiv (Fin a) NInf = Fin 0"
| "fdiv PInf (Fin b) = (if 0 \<le> b then PInf else NInf)"
| "fdiv NInf (Fin b) = (if 0 \<le> b then NInf else PInf)"
| "fdiv PInf y = NaN"
| "fdiv NInf y = NaN"

fun fless :: "double \<Rightarrow> double \<Rightarrow> bool" where
  "fless (Fin a) (Fin b) = (a < b)"
| "fless NaN y = False"
| "fless x NaN = False"
| "fless x NInf = False"
| "fless PInf y = False"
| "fless NInf y = True"
| "fless x PInf = True"

fun fle :: "double \<Rightarrow> double \<Rightarrow> bool" where
  "fle (Fin a) (Fin b) = (a \<le> b)"
| "fle NaN y = False"
| "fle x NaN = False"
| "fle NInf y = True"
| "fle x PInf = True"
| "fle PInf y = False"
| "fle x NInf = False"

text \<open>A decimal literal denotes the nearest binary64 number.\<close>

definition lit :: "real \<Rightarrow> double" where
  "lit x = rnd x"

text \<open>\<^verbatim>\<open>Math.pow(x, 2)\<close>, taken as the correctly rounded square.\<close>

definition fpow2 :: "double \<Rightarrow> double" where
  "fpow2 x = fmul x x"

text \<open>Finite and not negative, or plus infinity.\<close>

fun nonneg :: "double \<Rightarrow> bool" where
  "nonneg (Fin r) = (0 \<le> r)"
| "nonneg PInf = True"
| "nonneg NInf = False"
| "nonneg NaN = False"

subsection \<open>Steps 3 and 4 in binary64\<close>

text \<open>
  The same lines of the script with every operation rounded: the folds of Step 3, the
  chain of Step 4 with its literals, and the hard limits. On an empty window the mean is
  0 / 0, which is \<^verbatim>\<open>NaN\<close>.
\<close>

definition reduce_add64 :: "double list \<Rightarrow> double" where
  "reduce_add64 xs = foldl (\<lambda>a b. fadd a b) (Fin 0) xs"

definition calculateStability64 :: "double list \<Rightarrow> double \<times> double \<times> double" where
  "calculateStability64 stabilityWindow =
     (let sum = reduce_add64 stabilityWindow;
          mean = fdiv sum (Fin (real (length stabilityWindow)));
          variance = fdiv (reduce_add64 (map (\<lambda>x. fpow2 (fsub x mean)) stabilityWindow))
                          (Fin (real (length stabilityWindow)));
          stability = fdiv (Fin 1) (fadd (Fin 1) variance)
      in (mean, variance, stability))"

definition learn64 :: "config \<Rightarrow> double \<Rightarrow> double \<Rightarrow> double \<Rightarrow> double \<times> adjustmentCase" where
  "learn64 cfg avg3h stability newReglerleistung =
     (if fless avg3h (Fin 7) \<and> fless stability (lit 0.4) then
        (fadd newReglerleistung
           (fmul (fdiv (fsub (Fin 7) avg3h) (Fin 7)) (fmul (lit (basisLernrate cfg)) (Fin 2))),
         Case1)
      else if fless (Fin 16) avg3h \<and> fless (lit 0.6) stability then
        (fmul newReglerleistung (lit 0.95), Case2)
      else if fle (Fin 8) avg3h \<and> fle avg3h (Fin 12) \<and> fless (lit 0.7) stability then
        (fadd (fmul newReglerleistung (lit 0.99)) (lit 0.01), Case3)
      else
        (fadd newReglerleistung
           (fmul (fsub (Fin 1) newReglerleistung) (fmul (lit (basisLernrate cfg)) stability)),
         Default_Convergence))"

definition hardLimits64 :: "double \<Rightarrow> double" where
  "hardLimits64 newReglerleistung =
     (let r = (if fless newReglerleistung (lit 0.3) then lit 0.3 else newReglerleistung)
      in if fless (lit 1.7) r then lit 1.7 else r)"

definition learningStep64 ::
  "config \<Rightarrow> double list \<Rightarrow> double option \<Rightarrow> double \<times> double \<times> adjustmentCase" where
  "learningStep64 cfg stabilityWindow currentReglerleistungState =
     (let (mean, variance, stability) = calculateStability64 stabilityWindow;
          start = (case currentReglerleistungState of Some v \<Rightarrow> v | None \<Rightarrow> Fin 1);
          (newReglerleistung, adjustment) = learn64 cfg mean stability start
      in (stability, hardLimits64 newReglerleistung, adjustment))"

text \<open>The start value of the learning logic: the stored factor, or 1 when there is none.\<close>

definition previousFactor64 :: "double option \<Rightarrow> double" where
  "previousFactor64 st = (case st of Some v \<Rightarrow> v | None \<Rightarrow> Fin 1)"

subsection \<open>Example inputs\<close>

text \<open>
  A state store in which the heating period is active and the spread is above the
  minimum; the states of a room on a cold evening with somebody at home; the same room
  with an outdoor reading below the plausible range, and with a window open; a window
  with one sample so large that its squared deviation overflows; a window of three equal
  samples, the binary64 number nearest to 100000000.1.
\<close>

definition liveStates :: states where
  "liveStates = \<lparr> svHeizperiodeId = Some (JBool True), spreizungSensorId = Some (JNum 5),
     reglerleistungId = Some 1.2, systemStabilitaetId = Some 0.5 \<rparr>"

definition winterEvening :: room_states where
  "winterEvening = \<lparr> heizPeriode = JBool True, anwesenheit = JBool True,
     nachtschaltung = JBool False, sollTempAnwesend = Some 21, sollTempAbwesend = Some 16,
     reglerleistung = Some 1.2, fensterKontakte = [JBool False], tuerSensor = JNum 0,
     aussenTempSensor = Some 2 \<rparr>"

definition deepFrost :: room_states where
  "deepFrost = winterEvening \<lparr> aussenTempSensor := Some (- 35) \<rparr>"

definition windowOpen :: room_states where
  "windowOpen = winterEvening \<lparr> fensterKontakte := [JBool True] \<rparr>"

definition hugeWindow :: "double list" where
  "hugeWindow = [Fin (2 ^ 600), Fin 0, Fin 0, Fin 0]"


subsection \<open>The quantities of the specification\<close>

text \<open>
  Mean, variance (the mean of the squared deviations from the mean) and stability as the
  specification words them, and the previous factor with its neutral default; the code's
  folds are compared with them below.
\<close>

definition mean_of :: "real list \<Rightarrow> real" where
  "mean_of w = sum_list w / real (length w)"

definition variance_of :: "real list \<Rightarrow> real" where
  "variance_of w = sum_list (map (\<lambda>x. (x - mean_of w) ^ 2) w) / real (length w)"

definition stability_of :: "real list \<Rightarrow> real" where
  "stability_of w = 1 / (1 + variance_of w)"

definition previousFactor :: "real option \<Rightarrow> real" where
  "previousFactor st = (case st of Some v \<Rightarrow> v | None \<Rightarrow> 1)"

subsection \<open>Helper facts\<close>

text \<open>The folds of the script against the quantities of the specification.\<close>

lemma foldl_add_real: "foldl (\<lambda>a b. a + b) (s :: real) xs = s + sum_list xs"
  by (induction xs arbitrary: s) simp_all

lemma reduce_add_sum_list: "reduce_add xs = sum_list xs"
  by (simp add: reduce_add_def foldl_add_real)

lemma hardLimits_bounds: "0.3 \<le> hardLimits r \<and> hardLimits r \<le> 1.7"
  by (simp add: hardLimits_def Let_def)

lemma variance_sum_nonneg: "0 \<le> sum_list (map (\<lambda>x. (x - m) ^ 2) (xs :: real list))"
  by (rule sum_list_nonneg) auto

lemma variance_of_nonneg: "0 \<le> variance_of w"
  unfolding variance_of_def by (intro divide_nonneg_nonneg variance_sum_nonneg) simp

lemma calculateStability_nonempty:
  assumes "w \<noteq> []"
  shows "calculateStability w = Some (mean_of w, variance_of w, stability_of w)"
proof -
  from assms have len: "real (length w) \<noteq> 0" by simp
  have "0 \<le> variance_of w" by (rule variance_of_nonneg)
  then have pos: "1 + variance_of w \<noteq> 0" by linarith
  have m: "js_div (reduce_add w) (real (length w)) = Some (mean_of w)"
    using len by (simp add: js_div_def reduce_add_sum_list mean_of_def)
  have v: "js_div (reduce_add (map (\<lambda>x. (x - mean_of w) ^ 2) w)) (real (length w))
             = Some (variance_of w)"
    using len by (simp add: js_div_def reduce_add_sum_list variance_of_def)
  have s: "js_div 1 (1 + variance_of w) = Some (stability_of w)"
    using pos by (simp add: js_div_def stability_of_def)
  show ?thesis by (simp add: calculateStability_def m v s)
qed

lemma learningStep_nonempty:
  assumes "w \<noteq> []"
  shows "learningStep cfg w st =
           Some (stability_of w,
                 hardLimits (fst (learn cfg (mean_of w) (stability_of w) (previousFactor st))),
                 snd (learn cfg (mean_of w) (stability_of w) (previousFactor st)))"
  by (simp add: learningStep_def calculateStability_nonempty [OF assms] previousFactor_def
        Let_def split: prod.splits)

text \<open>
  Each case of the chain is taken exactly on its own condition: under the literal
  thresholds the three conditions exclude one another.
\<close>

lemma learn_cases:
  "(snd (learn cfg avg3h stability r) = Case1 \<longleftrightarrow> avg3h < 7 \<and> stability < 0.4)
   \<and> (snd (learn cfg avg3h stability r) = Case2 \<longleftrightarrow> avg3h > 16 \<and> stability > 0.6)
   \<and> (snd (learn cfg avg3h stability r) = Case3
        \<longleftrightarrow> 8 \<le> avg3h \<and> avg3h \<le> 12 \<and> stability > 0.7)"
  by (simp add: learn_def)

lemma stability_of_bounds: "0 < stability_of w \<and> stability_of w \<le> 1"
proof -
  have "0 \<le> variance_of w" by (rule variance_of_nonneg)
  then show ?thesis by (simp add: stability_of_def divide_le_eq)
qed

lemma sum_list_replicate_real: "sum_list (replicate n (v::real)) = real n * v"
  by (induction n) (simp_all add: algebra_simps)

lemma mean_of_replicate: "n > 0 \<Longrightarrow> mean_of (replicate n v) = v"
  by (simp add: mean_of_def sum_list_replicate_real)

lemma variance_of_replicate: "n > 0 \<Longrightarrow> variance_of (replicate n v) = 0"
  by (simp add: variance_of_def mean_of_replicate sum_list_replicate_real)

lemma slice_last_nonempty: "xs \<noteq> [] \<Longrightarrow> slice_last n xs \<noteq> []"
  by (cases xs) (auto simp: slice_last_def)

lemma slice_last_length:
  "length (slice_last n xs) = (if n = 0 then length xs else min n (length xs))"
  by (auto simp: slice_last_def)

text \<open>The cycle: with at least 3 samples the window is non-empty, so the step has a result.\<close>

lemma learningStep_enough_history:
  assumes "\<not> length h < 3"
  shows "learningStep cfg (slice_last n h) r =
           Some (stability_of (slice_last n h),
                 hardLimits (fst (learn cfg (mean_of (slice_last n h)) (stability_of (slice_last n h))
                                    (previousFactor r))),
                 snd (learn cfg (mean_of (slice_last n h)) (stability_of (slice_last n h))
                                    (previousFactor r)))"
proof -
  from assms have "h \<noteq> []" by auto
  then have "slice_last n h \<noteq> []" by (rule slice_last_nonempty)
  then show ?thesis by (rule learningStep_nonempty)
qed

lemma main_total: "\<exists>st'. main cfg st reply = Some st'"
  by (simp add: main_def Let_def learningStep_enough_history split: option.splits)

lemma toFixed4_bounds:
  assumes "0.3 \<le> f" and "f \<le> 1.7"
  shows "0.3 \<le> toFixed4 f \<and> toFixed4 f \<le> 1.7"
proof -
  from assms have nneg: "\<not> f < 0" by linarith
  have "3000 \<le> f * 10000 + 1 / 2" using assms by linarith
  then have "(3000::int) \<le> \<lfloor>f * 10000 + 1 / 2\<rfloor>" by (simp add: le_floor_iff)
  then have lo: "0.3 \<le> toFixed4 f" using nneg by (simp add: toFixed4_def)
  have "f * 10000 + 1 / 2 < 17001" using assms by linarith
  then have "\<lfloor>f * 10000 + 1 / 2\<rfloor> < (17001::int)" by (simp add: floor_less_iff)
  then have "\<lfloor>f * 10000 + 1 / 2\<rfloor> \<le> (17000::int)" by linarith
  then have "real_of_int \<lfloor>f * 10000 + 1 / 2\<rfloor> \<le> 17000" by linarith
  then have hi: "toFixed4 f \<le> 1.7" using nneg by (simp add: toFixed4_def)
  show ?thesis using lo hi by simp
qed

lemma main_unchanged_or_written:
  "main cfg st reply = Some st
   \<or> (\<exists>s f. main cfg st reply
               = Some (st \<lparr> systemStabilitaetId := Some s, reglerleistungId := Some f \<rparr>)
             \<and> 0.3 \<le> f \<and> f \<le> 1.7)"
proof (cases "main cfg st reply = Some st")
  case True
  then show ?thesis by simp
next
  case False
  then obtain h where h: "queryHistory reply = Some h" "\<not> length h < 3"
    by (auto simp: main_def Let_def split: option.splits if_splits)
  define w where "w = slice_last (stabilityCalculationHours cfg * 2) h"
  define f where "f = hardLimits (fst (learn cfg (mean_of w) (stability_of w)
                                         (previousFactor (reglerleistungId st))))"
  have step: "learningStep cfg w (reglerleistungId st)
                = Some (stability_of w, f,
                        snd (learn cfg (mean_of w) (stability_of w)
                               (previousFactor (reglerleistungId st))))"
    unfolding w_def f_def by (rule learningStep_enough_history [OF h(2)])
  have fb: "0.3 \<le> f" "f \<le> 1.7"
    unfolding f_def using hardLimits_bounds by blast+
  have b: "0.3 \<le> toFixed4 f \<and> toFixed4 f \<le> 1.7" by (rule toFixed4_bounds [OF fb])
  have "main cfg st reply
          = Some (st \<lparr> systemStabilitaetId := Some (toFixed4 (stability_of w)),
                       reglerleistungId := Some (toFixed4 f) \<rparr>)"
    using False h step [unfolded w_def]
    by (auto simp: main_def Let_def w_def split: option.splits if_splits)
  then show ?thesis using b by blast
qed

text \<open>The empty window is the input on which the division by the length has no real result.\<close>

lemma learningStep_empty: "learningStep cfg [] prev = None"
  by (simp add: learningStep_def calculateStability_def js_div_def)

text \<open>
  A full cycle: seven valid samples, of which the last six form the window; the mean is
  18 and the stability 3/4, so the second case turns the factor 1.2 into 1.14.
\<close>

lemma main_writes_example:
  "main CONFIG liveStates
        (Reply False (Some [Some 3, Some 17, Some 19, None, Some 18, Some 18, Some 18, Some 18]))
   = Some (liveStates \<lparr> systemStabilitaetId := Some 0.75, reglerleistungId := Some 1.14 \<rparr>)"
proof -
  have sl: "slice_last 6 [3, 17, 19, 18, 18, 18, 18 :: real] = [17, 19, 18, 18, 18, 18]"
    by (simp add: slice_last_def)
  have m: "mean_of [17, 19, 18, 18, 18, 18] = 18" by (simp add: mean_of_def)
  have s: "stability_of [17, 19, 18, 18, 18, 18] = 3 / 4"
    by (simp add: stability_of_def variance_of_def m)
  have st: "learningStep CONFIG [17, 19, 18, 18, 18, 18] (Some 1.2) = Some (3 / 4, 1.14, Case2)"
    by (simp add: learningStep_nonempty m s learn_def previousFactor_def hardLimits_def)
  have cfg: "stabilityCalculationHours CONFIG * 2 = 6" "\<not> simulationAktiv CONFIG"
    "minSpreizungForLearning CONFIG = 2"
    by (simp_all add: CONFIG_def)
  have f1: "toFixed4 (3 / 4) = 0.75" by (simp add: toFixed4_def)
  have f2: "toFixed4 1.14 = 1.14" by (simp add: toFixed4_def)
  show ?thesis
    using st f1 f2 by (simp add: main_def queryHistory_def cfg sl liveStates_def)
qed

subsection \<open>Facts about binary64 rounding\<close>

text \<open>Rounding to an integer multiple of the spacing.\<close>

lemma round_even_of_int [simp]: "round_even (of_int n) = n"
  by (simp add: round_even_def)

lemma round_even_ge: "of_int n \<le> y \<Longrightarrow> n \<le> round_even y"
proof -
  assume "of_int n \<le> y"
  then have "n \<le> \<lfloor>y\<rfloor>" by (simp add: le_floor_iff)
  moreover have "\<lfloor>y\<rfloor> \<le> round_even y" by (simp add: round_even_def)
  ultimately show ?thesis by linarith
qed

lemma round_even_le: "y \<le> of_int n \<Longrightarrow> round_even y \<le> n"
proof -
  assume a: "y \<le> of_int n"
  show ?thesis
  proof (cases "y = of_int n")
    case True
    then show ?thesis by simp
  next
    case False
    with a have "y < of_int n" by simp
    then have "\<lfloor>y\<rfloor> < n" by (simp add: floor_less_iff)
    then have "\<lfloor>y\<rfloor> + 1 \<le> n" by simp
    moreover have "round_even y \<le> \<lfloor>y\<rfloor> + 1" by (simp add: round_even_def)
    ultimately show ?thesis by linarith
  qed
qed

lemma expo_eval:
  assumes "- 1022 \<le> e" and "2 powi e \<le> \<bar>x\<bar>" and "\<bar>x\<bar> < 2 powi (e + 1)"
  shows "expo x = e"
proof -
  have "(0::real) < 2 powi e" by simp
  then have pos: "0 < \<bar>x\<bar>" using assms(2) by linarith
  have p1: "2 powr (real_of_int e) = (2::real) powi e"
    by (simp add: powr_real_of_int')
  have p2: "2 powr (real_of_int e + 1) = (2::real) powi (e + 1)"
    using powr_real_of_int' [of "2::real" "e + 1"] by simp
  have "\<lfloor>log 2 \<bar>x\<bar>\<rfloor> = e"
    using assms(2,3) pos floor_log_eq_powr_iff [of "\<bar>x\<bar>" 2 e] by (simp add: p1 p2)
  then show ?thesis using assms(1) by (simp add: expo_def)
qed

text \<open>The binade of a real, and the evaluation of a rounding whose binade is known.\<close>

lemma floor_log2_bounds:
  assumes "x \<noteq> 0"
  shows "2 powi \<lfloor>log 2 \<bar>x\<bar>\<rfloor> \<le> \<bar>x\<bar> \<and> \<bar>x\<bar> < 2 powi (\<lfloor>log 2 \<bar>x\<bar>\<rfloor> + 1)"
proof -
  let ?e = "\<lfloor>log 2 \<bar>x\<bar>\<rfloor>"
  have pos: "0 < \<bar>x\<bar>" using assms by simp
  have p1: "2 powr (real_of_int ?e) = (2::real) powi ?e"
    by (simp add: powr_real_of_int')
  have p2: "2 powr (real_of_int ?e + 1) = (2::real) powi (?e + 1)"
    using powr_real_of_int' [of "2::real" "?e + 1"] by simp
  show ?thesis
    using floor_log_eq_powr_iff [of "\<bar>x\<bar>" 2 ?e] pos by (simp add: p1 p2)
qed

lemma expo_upper:
  assumes "x \<noteq> 0"
  shows "\<bar>x\<bar> < 2 powi (expo x + 1)"
proof -
  have "\<bar>x\<bar> < 2 powi (\<lfloor>log 2 \<bar>x\<bar>\<rfloor> + 1)" using floor_log2_bounds [OF assms] by simp
  also have "\<dots> \<le> 2 powi (expo x + 1)"
    by (rule power_int_increasing) (simp_all add: expo_def)
  finally show ?thesis .
qed

lemma expo_lower:
  assumes "2 powi (- 1022) \<le> \<bar>x\<bar>"
  shows "2 powi (expo x) \<le> \<bar>x\<bar>"
proof -
  have "(0::real) < 2 powi (- 1022)" by simp
  then have "0 < \<bar>x\<bar>" using assms by linarith
  then have nz: "x \<noteq> 0" by auto
  have "- 1022 \<le> \<lfloor>log 2 \<bar>x\<bar>\<rfloor>"
  proof (rule ccontr)
    assume "\<not> - 1022 \<le> \<lfloor>log 2 \<bar>x\<bar>\<rfloor>"
    then have "\<lfloor>log 2 \<bar>x\<bar>\<rfloor> + 1 \<le> - 1022" by linarith
    then have "(2::real) powi (\<lfloor>log 2 \<bar>x\<bar>\<rfloor> + 1) \<le> 2 powi (- 1022)"
      by (intro power_int_increasing) simp_all
    then show False using floor_log2_bounds [OF nz] assms by linarith
  qed
  then have "expo x = \<lfloor>log 2 \<bar>x\<bar>\<rfloor>" by (simp add: expo_def)
  then show ?thesis using floor_log2_bounds [OF nz] by simp
qed

lemma expo_subnormal:
  assumes "x \<noteq> 0" and "\<bar>x\<bar> < 2 powi (- 1022)"
  shows "expo x = - 1022"
proof -
  have "\<lfloor>log 2 \<bar>x\<bar>\<rfloor> < - 1022"
  proof (rule ccontr)
    assume "\<not> \<lfloor>log 2 \<bar>x\<bar>\<rfloor> < - 1022"
    then have "(2::real) powi (- 1022) \<le> 2 powi \<lfloor>log 2 \<bar>x\<bar>\<rfloor>"
      by (intro power_int_increasing) simp_all
    then show False using floor_log2_bounds [OF assms(1)] assms(2) by linarith
  qed
  then show ?thesis by (simp add: expo_def)
qed

lemma ulp_pos: "0 < ulp x"
  by (simp add: ulp_def)

lemma pow2_split: "(2::real) powi (a + b) = 2 powi a * 2 powi b"
  by (simp add: power_int_add)

lemma ulp_times_53: "real_of_int (2 ^ 53) * ulp x = 2 powi (expo x + 1)"
proof -
  have "(2::real) powi (53 + (expo x - 52)) = 2 powi 53 * 2 powi (expo x - 52)"
    by (rule pow2_split)
  moreover have "53 + (expo x - 52) = expo x + 1" by simp
  ultimately show ?thesis by (simp add: ulp_def)
qed

lemma ulp_times_52: "real_of_int (2 ^ 52) * ulp x = 2 powi (expo x)"
proof -
  have "(2::real) powi (52 + (expo x - 52)) = 2 powi 52 * 2 powi (expo x - 52)"
    by (rule pow2_split)
  moreover have "52 + (expo x - 52) = expo x" by simp
  ultimately show ?thesis by (simp add: ulp_def)
qed

text \<open>Evaluation of a rounding whose binade is known.\<close>

lemma rnd_eval:
  assumes "- 1022 \<le> e" and "2 powi e \<le> \<bar>x\<bar>" and "\<bar>x\<bar> < 2 powi (e + 1)"
  shows "rnd x =
           (if overflow \<le> \<bar>real_of_int (round_even (x / 2 powi (e - 52))) * 2 powi (e - 52)\<bar>
            then (if 0 < x then PInf else NInf)
            else Fin (real_of_int (round_even (x / 2 powi (e - 52))) * 2 powi (e - 52)))"
proof -
  have "(0::real) < 2 powi e" by simp
  then have "0 < \<bar>x\<bar>" using assms(2) by linarith
  then have nz: "x \<noteq> 0" by auto
  have "expo x = e" by (rule expo_eval [OF assms])
  then show ?thesis using nz by (simp add: rnd_def nearest_def ulp_def)
qed

lemma rnd_0 [simp]: "rnd 0 = Fin 0"
  by (simp add: rnd_def)

lemma nearest_nonneg: "0 \<le> x \<Longrightarrow> 0 \<le> nearest x"
proof -
  assume "0 \<le> x"
  then have "real_of_int 0 \<le> x / ulp x" using ulp_pos [of x] by simp
  then have "0 \<le> round_even (x / ulp x)" by (rule round_even_ge)
  then show ?thesis using ulp_pos [of x] by (simp add: nearest_def)
qed

lemma nearest_upper:
  assumes "0 < x"
  shows "nearest x \<le> 2 powi (expo x + 1)"
proof -
  have "x < 2 powi (expo x + 1)" using expo_upper [of x] assms by simp
  then have "x \<le> real_of_int (2 ^ 53) * ulp x" by (simp only: ulp_times_53)
  then have "x / ulp x \<le> real_of_int (2 ^ 53)"
    using ulp_pos [of x] by (simp only: pos_divide_le_eq)
  then have "round_even (x / ulp x) \<le> 2 ^ 53" by (rule round_even_le)
  then have "real_of_int (round_even (x / ulp x)) \<le> real_of_int (2 ^ 53)"
    by (simp only: of_int_le_iff)
  then have "nearest x \<le> real_of_int (2 ^ 53) * ulp x"
    unfolding nearest_def using ulp_pos [of x] by (intro mult_right_mono) simp_all
  then show ?thesis by (simp only: ulp_times_53)
qed

lemma nearest_lower:
  assumes "2 powi (- 1022) \<le> x"
  shows "2 powi (expo x) \<le> nearest x"
proof -
  have "(0::real) < 2 powi (- 1022)" by simp
  then have pos: "0 < x" using assms by linarith
  have "2 powi (expo x) \<le> x" using expo_lower [of x] assms pos by simp
  then have "real_of_int (2 ^ 52) * ulp x \<le> x" by (simp only: ulp_times_52)
  then have "real_of_int (2 ^ 52) \<le> x / ulp x"
    using ulp_pos [of x] by (simp only: pos_le_divide_eq)
  then have "2 ^ 52 \<le> round_even (x / ulp x)" by (rule round_even_ge)
  then have "real_of_int (2 ^ 52) \<le> real_of_int (round_even (x / ulp x))"
    by (simp only: of_int_le_iff)
  then have "real_of_int (2 ^ 52) * ulp x \<le> nearest x"
    unfolding nearest_def using ulp_pos [of x] by (intro mult_right_mono) simp_all
  then show ?thesis by (simp only: ulp_times_52)
qed

text \<open>Overflow, numbers that are representable, and roundings inside [0, 1].\<close>

lemma overflow_pos: "0 < overflow"
  by (simp add: overflow_def)

lemma overflow_powi: "overflow = 2 powi 1024"
  by (simp add: overflow_def)

lemma rnd_nonneg: "0 \<le> x \<Longrightarrow> nonneg (rnd x)"
  using nearest_nonneg [of x] by (simp add: rnd_def)

lemma pow2_less_imp: "(2::real) powi a < 2 powi b \<Longrightarrow> a < b"
  by (rule ccontr) (simp add: not_less power_int_increasing leD)

lemma rnd_overflow:
  assumes "overflow \<le> x"
  shows "rnd x = PInf"
proof -
  have pos: "0 < x" using assms overflow_pos by linarith
  have "2 powi 1024 \<le> x" using assms by (simp only: overflow_powi)
  moreover have "x < 2 powi (expo x + 1)" using expo_upper [of x] pos by simp
  ultimately have "(2::real) powi 1024 < 2 powi (expo x + 1)" by linarith
  then have "1024 < expo x + 1" by (rule pow2_less_imp)
  then have "(2::real) powi 1024 \<le> 2 powi (expo x)"
    by (intro power_int_increasing) simp_all
  moreover have "(2::real) powi (- 1022) \<le> 2 powi 1024"
    by (intro power_int_increasing) simp_all
  then have "2 powi (- 1022) \<le> x" using \<open>2 powi 1024 \<le> x\<close> by linarith
  then have "2 powi (expo x) \<le> nearest x" by (rule nearest_lower)
  ultimately have "overflow \<le> nearest x" by (simp only: overflow_powi)
  then have "overflow \<le> \<bar>nearest x\<bar>" by linarith
  then show ?thesis using pos by (simp add: rnd_def)
qed

lemma rnd_ge_1:
  assumes "1 \<le> x"
  shows "rnd x = PInf \<or> (\<exists>r. rnd x = Fin r \<and> 1 \<le> r)"
proof -
  have pos: "0 < x" using assms by linarith
  have "x < 2 powi (expo x + 1)" using expo_upper [of x] pos by simp
  then have "(2::real) powi 0 < 2 powi (expo x + 1)" using assms by simp
  then have "0 < expo x + 1" by (rule pow2_less_imp)
  then have "(2::real) powi 0 \<le> 2 powi (expo x)"
    by (intro power_int_increasing) simp_all
  moreover have "(2::real) powi (- 1022) \<le> 2 powi 0"
    by (intro power_int_increasing) simp_all
  then have "2 powi (- 1022) \<le> x" using assms by simp
  then have "2 powi (expo x) \<le> nearest x" by (rule nearest_lower)
  ultimately have "1 \<le> nearest x" by simp
  then show ?thesis using pos by (simp add: rnd_def)
qed

lemma nearest_exact:
  assumes "x = real_of_int m * 2 powi k" and "\<bar>m\<bar> < 2 ^ 53" and "- 1074 \<le> k"
  shows "nearest x = x"
proof (cases "x = 0")
  case True
  have "round_even 0 = 0" using round_even_of_int [of 0] by simp
  then show ?thesis using True by (simp add: nearest_def)
next
  case False
  let ?e = "expo x"
  have ke: "?e - 52 \<le> k"
  proof (rule ccontr)
    assume "\<not> ?e - 52 \<le> k"
    then have lt: "k + 53 \<le> ?e" by linarith
    then have "- 1022 < ?e" using assms(3) by linarith
    then have "?e = \<lfloor>log 2 \<bar>x\<bar>\<rfloor>" by (simp add: expo_def max_def split: if_splits)
    then have "2 powi ?e \<le> \<bar>x\<bar>" using floor_log2_bounds [OF False] by simp
    moreover have "(2::real) powi (k + 53) \<le> 2 powi ?e"
      using lt by (intro power_int_increasing) simp_all
    ultimately have "2 powi (k + 53) \<le> \<bar>x\<bar>" by linarith
    also have "\<bar>x\<bar> = real_of_int \<bar>m\<bar> * 2 powi k"
      by (simp add: assms(1) abs_mult)
    finally have "2 powi 53 * 2 powi k \<le> real_of_int \<bar>m\<bar> * (2::real) powi k"
      using pow2_split [of 53 k] by (simp add: add.commute)
    then have "(2::real) powi 53 \<le> real_of_int \<bar>m\<bar>"
      by (simp add: mult_le_cancel_right)
    then have "real_of_int (2 ^ 53) \<le> real_of_int \<bar>m\<bar>" by simp
    then have "(2::int) ^ 53 \<le> \<bar>m\<bar>" by (simp only: of_int_le_iff)
    then show False using assms(2) by linarith
  qed
  define j where "j = nat (k - (?e - 52))"
  define u where "u = ulp x"
  have upos: "0 < u" unfolding u_def by (rule ulp_pos)
  have kj: "k = (?e - 52) + int j" using ke by (simp add: j_def)
  have "(2::real) powi k = 2 powi (?e - 52) * 2 powi (int j)"
    by (subst kj) (rule pow2_split)
  then have pk: "(2::real) powi k = u * 2 ^ j" by (simp add: u_def ulp_def)
  have xu: "x = real_of_int (m * 2 ^ j) * u"
    unfolding assms(1) pk by simp
  then have "x / u = real_of_int (m * 2 ^ j)" using upos by simp
  then have "round_even (x / u) = m * 2 ^ j" by (simp only: round_even_of_int)
  then have "real_of_int (round_even (x / u)) * u = x" using xu by simp
  then show ?thesis by (simp add: nearest_def u_def)
qed

lemma rnd_exact:
  assumes "x = real_of_int m * 2 powi k" and "\<bar>m\<bar> < 2 ^ 53" and "- 1074 \<le> k"
    and "\<bar>x\<bar> < overflow"
  shows "rnd x = Fin x"
  using nearest_exact [OF assms(1-3)] assms(4) by (simp add: rnd_def)

lemma rnd_int:
  assumes "\<bar>m\<bar> < 2 ^ 53"
  shows "rnd (real_of_int m) = Fin (real_of_int m)"
proof -
  have "\<bar>real_of_int m\<bar> < real_of_int (2 ^ 53)" using assms by linarith
  also have "\<dots> < overflow" by (simp add: overflow_def)
  finally have "\<bar>real_of_int m\<bar> < overflow" .
  then show ?thesis
    using rnd_exact [of "real_of_int m" m 0] assms by simp
qed

lemma rnd_1 [simp]: "rnd 1 = Fin 1"
  using rnd_int [of 1] by simp

lemma rnd_unit:
  assumes "0 < x" and "x \<le> 1"
  shows "\<exists>r. rnd x = Fin r \<and> 0 \<le> r \<and> r \<le> 1"
proof (cases "x = 1")
  case True
  then show ?thesis by simp
next
  case False
  then have lt: "x < 1" using assms(2) by simp
  have "expo x + 1 \<le> 0"
  proof (cases "2 powi (- 1022) \<le> x")
    case True
    then have "2 powi (expo x) \<le> x" using expo_lower [of x] assms(1) by simp
    then have "(2::real) powi (expo x) < 2 powi 0" using lt by simp
    then have "expo x < 0" by (rule pow2_less_imp)
    then show ?thesis by simp
  next
    case False
    then have "expo x = - 1022" using expo_subnormal [of x] assms(1) by simp
    then show ?thesis by simp
  qed
  then have "(2::real) powi (expo x + 1) \<le> 2 powi 0"
    by (intro power_int_increasing) simp_all
  then have up: "nearest x \<le> 1" using nearest_upper [OF assms(1)] by simp
  have lo: "0 \<le> nearest x" using nearest_nonneg [of x] assms(1) by simp
  have "1 < overflow" by (simp add: overflow_def)
  then have "\<not> overflow \<le> \<bar>nearest x\<bar>" using up lo by linarith
  then show ?thesis using up lo assms(1) by (simp add: rnd_def)
qed

lemma rnd_not_NaN [simp]: "rnd x \<noteq> NaN"
  by (simp add: rnd_def)

lemma rnd_Fin_bound: "rnd x = Fin r \<Longrightarrow> \<bar>r\<bar> < overflow"
  using overflow_pos by (auto simp: rnd_def split: if_splits)

lemma nearest_pos:
  assumes "2 powi (- 1074) \<le> x"
  shows "0 < nearest x"
proof (cases "2 powi (- 1022) \<le> x")
  case True
  then have "2 powi (expo x) \<le> nearest x" by (rule nearest_lower)
  moreover have "(0::real) < 2 powi (expo x)" by simp
  ultimately show ?thesis by linarith
next
  case False
  have "(0::real) < 2 powi (- 1074)" by simp
  then have pos: "0 < x" using assms by linarith
  then have e: "expo x = - 1022" using expo_subnormal [of x] False by simp
  have u: "ulp x = 2 powi (- 1074)" by (simp add: ulp_def e)
  then have "real_of_int 1 \<le> x / ulp x" using assms ulp_pos [of x] by (simp add: u)
  then have "1 \<le> round_even (x / ulp x)" by (rule round_even_ge)
  then have "0 < real_of_int (round_even (x / ulp x))" by simp
  then show ?thesis using ulp_pos [of x] by (simp add: nearest_def)
qed

lemma fadd_nonneg: "nonneg a \<Longrightarrow> nonneg b \<Longrightarrow> nonneg (fadd a b)"
  by (cases a; cases b) (simp_all add: rnd_nonneg)

lemma foldl_fadd_nonneg:
  "nonneg acc \<Longrightarrow> (\<forall>x \<in> set xs. nonneg x) \<Longrightarrow> nonneg (foldl (\<lambda>a b. fadd a b) acc xs)"
  by (induction xs arbitrary: acc) (simp_all add: fadd_nonneg)

lemma reduce_add64_nonneg: "(\<forall>x \<in> set xs. nonneg x) \<Longrightarrow> nonneg (reduce_add64 xs)"
  unfolding reduce_add64_def by (rule foldl_fadd_nonneg) simp_all

lemma fdiv_nonneg: "nonneg a \<Longrightarrow> 0 < n \<Longrightarrow> nonneg (fdiv a (Fin n))"
  by (cases a) (simp_all add: rnd_nonneg)

lemma fsub_not_NaN: "m \<noteq> NaN \<Longrightarrow> fsub (Fin x) m \<noteq> NaN"
  by (cases m) (simp_all add: fsub_def)

lemma fpow2_nonneg: "d \<noteq> NaN \<Longrightarrow> nonneg (fpow2 d)"
  by (cases d) (simp_all add: fpow2_def rnd_nonneg)

lemma nonneg_not_NaN: "nonneg d \<Longrightarrow> d \<noteq> NaN"
  by (cases d) simp_all

lemma fadd_one_nonneg:
  assumes "nonneg v"
  shows "fadd (Fin 1) v = PInf \<or> (\<exists>r. fadd (Fin 1) v = Fin r \<and> 1 \<le> r \<and> r < overflow)"
proof (cases v)
  case (Fin a)
  then have "1 \<le> 1 + a" using assms by simp
  then have "rnd (1 + a) = PInf \<or> (\<exists>r. rnd (1 + a) = Fin r \<and> 1 \<le> r)" by (rule rnd_ge_1)
  then show ?thesis using Fin rnd_Fin_bound [of "1 + a"] by auto
qed (use assms in simp_all)

lemma fdiv_one_unit:
  assumes "1 \<le> r" and "r < overflow"
  shows "\<exists>s. fdiv (Fin 1) (Fin r) = Fin s \<and> 0 < s \<and> s \<le> 1"
proof -
  have rpos: "0 < r" using assms(1) by linarith
  have "0 < 1 / r" "1 / r \<le> 1" using assms(1) rpos by simp_all
  then obtain s where s: "rnd (1 / r) = Fin s" "0 \<le> s" "s \<le> 1"
    using rnd_unit [of "1 / r"] by blast
  have "1 / overflow < 1 / r" using assms(2) rpos by (simp add: frac_less2)
  moreover have "1 / overflow = 2 powi (- 1024)"
    by (simp add: overflow_powi power_int_minus_divide)
  moreover have "(2::real) powi (- 1074) \<le> 2 powi (- 1024)"
    by (intro power_int_increasing) simp_all
  ultimately have "2 powi (- 1074) \<le> 1 / r" by linarith
  then have "0 < nearest (1 / r)" by (rule nearest_pos)
  moreover have "s = nearest (1 / r)"
    using s(1) rpos by (auto simp: rnd_def split: if_splits)
  ultimately have "0 < s" by simp
  then show ?thesis using s rpos by simp
qed

lemma variance64_nonneg:
  assumes "window \<noteq> []" and "\<forall>x \<in> set window. \<exists>a. x = Fin a \<and> 0 \<le> a"
  shows "nonneg (fst (snd (calculateStability64 window)))"
proof -
  let ?n = "real (length window)"
  let ?mean = "fdiv (reduce_add64 window) (Fin ?n)"
  have n: "0 < ?n" using assms(1) by simp
  have "\<forall>x \<in> set window. nonneg x" using assms(2) by auto
  then have "nonneg (reduce_add64 window)" by (rule reduce_add64_nonneg)
  then have "nonneg ?mean" using n by (rule fdiv_nonneg)
  then have mn: "?mean \<noteq> NaN" by (rule nonneg_not_NaN)
  have "\<forall>d \<in> set (map (\<lambda>x. fpow2 (fsub x ?mean)) window). nonneg d"
  proof
    fix d assume "d \<in> set (map (\<lambda>x. fpow2 (fsub x ?mean)) window)"
    then obtain x where x: "x \<in> set window" "d = fpow2 (fsub x ?mean)" by auto
    then obtain a where "x = Fin a" using assms(2) by blast
    then show "nonneg d" using x(2) fsub_not_NaN [OF mn] fpow2_nonneg by simp
  qed
  then have "nonneg (reduce_add64 (map (\<lambda>x. fpow2 (fsub x ?mean)) window))"
    by (rule reduce_add64_nonneg)
  then have "nonneg (fdiv (reduce_add64 (map (\<lambda>x. fpow2 (fsub x ?mean)) window)) (Fin ?n))"
    using n by (rule fdiv_nonneg)
  then show ?thesis by (simp add: calculateStability64_def Let_def)
qed

lemma rnd_numeral: "numeral k < (2::int) ^ 53 \<Longrightarrow> rnd (numeral k) = Fin (numeral k)"
  using rnd_int [of "numeral k"] by simp

lemma rnd_neg_numeral:
  "numeral k < (2::int) ^ 53 \<Longrightarrow> rnd (- numeral k) = Fin (- numeral k)"
  using rnd_int [of "- numeral k"] by simp

lemma rnd_m1 [simp]: "rnd (- 1) = Fin (- 1)"
  using rnd_int [of "- 1"] by simp

text \<open>The literals of the script and some roundings of the examples.\<close>

lemma r_half: "rnd (1 / 2) = Fin (1 / 2)"
  using rnd_exact [of "1 / 2" 1 "- 1"] by (simp add: overflow_def)

lemma r_3half: "rnd (3 / 2) = Fin (3 / 2)"
  using rnd_exact [of "3 / 2" 3 "- 1"] by (simp add: overflow_def)

lemma r_23: "rnd (2 / 3) = Fin (6004799503160661 / 2 ^ 53)"
  using rnd_eval [of "- 1" "2 / 3"] by (simp add: round_even_def overflow_def)

lemma calc_9_10_10_11:
  "calculateStability64 [Fin 9, Fin 10, Fin 10, Fin 11]
     = (Fin 10, Fin (1 / 2), Fin (6004799503160661 / 2 ^ 53))"
  using r_half r_3half r_23
  by (simp add: calculateStability64_def reduce_add64_def fpow2_def fsub_def rnd_numeral
        rnd_neg_numeral)

lemma lit_04: "lit 0.4 = Fin (3602879701896397 / 2 ^ 53)"
  using rnd_eval [of "- 2" "0.4"] by (simp add: lit_def round_even_def overflow_def)

lemma lit_06: "lit 0.6 = Fin (5404319552844595 / 2 ^ 53)"
  using rnd_eval [of "- 1" "0.6"] by (simp add: lit_def round_even_def overflow_def)

lemma lit_07: "lit 0.7 = Fin (3152519739159347 / 2 ^ 52)"
  using rnd_eval [of "- 1" "0.7"] by (simp add: lit_def round_even_def overflow_def)

lemma lit_03: "lit 0.3 = Fin (5404319552844595 / 2 ^ 54)"
  using rnd_eval [of "- 2" "0.3"] by (simp add: lit_def round_even_def overflow_def)

lemma lit_17: "lit 1.7 = Fin (7656119366529843 / 2 ^ 52)"
  using rnd_eval [of 0 "1.7"] by (simp add: lit_def round_even_def overflow_def)

lemma lit_002: "lit 0.02 = Fin (5764607523034235 / 2 ^ 58)"
  using rnd_eval [of "- 6" "0.02"] by (simp add: lit_def round_even_def overflow_def)

lemma lit_095: "lit 0.95 = Fin (4278419646001971 / 2 ^ 52)"
  using rnd_eval [of "- 1" "0.95"] by (simp add: lit_def round_even_def overflow_def)

lemma lit_12: "lit 1.2 = Fin (5404319552844595 / 2 ^ 52)"
  using rnd_eval [of 0 "1.2"] by (simp add: lit_def round_even_def overflow_def)

lemma lit_114: "lit 1.14 = Fin (5134103575202365 / 2 ^ 52)"
  using rnd_eval [of 0 "1.14"] by (simp add: lit_def round_even_def overflow_def)

lemma mul_12_095:
  "rnd (5404319552844595 / 2 ^ 52 * (4278419646001971 / 2 ^ 52))
     = Fin (5134103575202365 / 2 ^ 52)"
  using rnd_eval [of 0 "5404319552844595 / 2 ^ 52 * (4278419646001971 / 2 ^ 52)"]
  by (simp add: round_even_def overflow_def)

lemma hardLimits64_114: "hardLimits64 (Fin (5134103575202365 / 2 ^ 52)) = Fin (5134103575202365 / 2 ^ 52)"
  using lit_03 lit_17 by (simp add: hardLimits64_def)

lemma rnd_095_exact: "rnd (4278419646001971 / 2 ^ 52) = Fin (4278419646001971 / 2 ^ 52)"
  using rnd_exact [of "4278419646001971 / 2 ^ 52" 4278419646001971 "- 52"]
  by (simp add: overflow_def)


subsection \<open>Facts about Steps 3 and 4 in binary64\<close>

lemma foldl_fadd_zero:
  "foldl (\<lambda>a b. fadd a b) (Fin 0) (replicate n (Fin 0)) = Fin 0"
  by (induction n) simp_all

lemma foldl_fadd_int:
  "0 \<le> a \<Longrightarrow> 0 \<le> k \<Longrightarrow> a + int j * k < 2 ^ 53 \<Longrightarrow>
     foldl (\<lambda>a b. fadd a b) (Fin (real_of_int a)) (replicate j (Fin (real_of_int k)))
       = Fin (real_of_int (a + int j * k))"
proof (induction j arbitrary: a)
  case 0
  then show ?case by simp
next
  case (Suc j)
  have le: "a + k \<le> a + int (Suc j) * k" using Suc.prems(2) by (simp add: algebra_simps)
  then have "\<bar>a + k\<bar> < 2 ^ 53" using Suc.prems by linarith
  then have r: "rnd (real_of_int (a + k)) = Fin (real_of_int (a + k))" by (rule rnd_int)
  have "a + k + int j * k < 2 ^ 53" using Suc.prems(3) by (simp add: algebra_simps)
  then have "foldl (\<lambda>a b. fadd a b) (Fin (real_of_int (a + k))) (replicate j (Fin (real_of_int k)))
               = Fin (real_of_int (a + k + int j * k))"
    using Suc.IH [of "a + k"] Suc.prems(1,2) by simp
  then show ?case using r by (simp add: algebra_simps)
qed

lemma constant_window_exact_mean:
  assumes "0 < n" and "fst (calculateStability64 (replicate n (Fin v))) = Fin v"
  shows "calculateStability64 (replicate n (Fin v)) = (Fin v, Fin 0, Fin 1)"
proof -
  have mean: "fdiv (reduce_add64 (replicate n (Fin v))) (Fin (real n)) = Fin v"
    using assms(2) by (simp add: calculateStability64_def Let_def)
  have dev: "fpow2 (fsub (Fin v) (Fin v)) = Fin 0"
    by (simp add: fpow2_def fsub_def)
  have var: "fdiv (reduce_add64 (replicate n (Fin 0))) (Fin (real n)) = Fin 0"
    using assms(1) by (simp add: reduce_add64_def foldl_fadd_zero)
  show ?thesis
    by (simp add: calculateStability64_def Let_def mean dev var)
qed

lemma constant_window_int_mean:
  assumes "0 < n" and "0 \<le> k" and "int n * k < 2 ^ 53"
  shows "fst (calculateStability64 (replicate n (Fin (real_of_int k)))) = Fin (real_of_int k)"
proof -
  have "reduce_add64 (replicate n (Fin (real_of_int k))) = Fin (real_of_int (int n * k))"
    using foldl_fadd_int [of 0 k n] assms(2,3) by (simp add: reduce_add64_def)
  moreover have "k \<le> int n * k" using assms(1,2) by (simp add: mult_le_cancel_right1)
  then have "\<bar>k\<bar> < 2 ^ 53" using assms(2,3) by linarith
  then have "rnd (real_of_int k) = Fin (real_of_int k)" by (rule rnd_int)
  ultimately show ?thesis
    using assms(1) by (simp add: calculateStability64_def Let_def)
qed


lemma learningStep64_unfold:
  assumes "calculateStability64 window = (mean, variance, stability)"
  shows "learningStep64 cfg window prev
           = (stability,
              hardLimits64 (fst (learn64 cfg mean stability (previousFactor64 prev))),
              snd (learn64 cfg mean stability (previousFactor64 prev)))"
  by (simp add: learningStep64_def assms previousFactor64_def split: prod.splits)

lemma fless_16_not_7: "fless (Fin 16) mean \<Longrightarrow> \<not> fless mean (Fin 7)"
  by (cases mean) simp_all

lemma fle_band_excludes:
  "fle (Fin 8) mean \<Longrightarrow> fle mean (Fin 12) \<Longrightarrow> \<not> fless mean (Fin 7) \<and> \<not> fless (Fin 16) mean"
  by (cases mean) simp_all

lemma learn64_cases:
  "(snd (learn64 cfg mean stability r) = Case1
      \<longleftrightarrow> fless mean (Fin 7) \<and> fless stability (lit 0.4))
   \<and> (snd (learn64 cfg mean stability r) = Case2
      \<longleftrightarrow> fless (Fin 16) mean \<and> fless (lit 0.6) stability)
   \<and> (snd (learn64 cfg mean stability r) = Case3
      \<longleftrightarrow> fle (Fin 8) mean \<and> fle mean (Fin 12) \<and> fless (lit 0.7) stability)
   \<and> (snd (learn64 cfg mean stability r) = Default_Convergence
      \<longleftrightarrow> \<not> (fless mean (Fin 7) \<and> fless stability (lit 0.4))
          \<and> \<not> (fless (Fin 16) mean \<and> fless (lit 0.6) stability)
          \<and> \<not> (fle (Fin 8) mean \<and> fle mean (Fin 12) \<and> fless (lit 0.7) stability))"
  using fless_16_not_7 [of mean] fle_band_excludes [of mean]
  by (auto simp: learn64_def)

lemma calc_17_19:
  "calculateStability64 [Fin 17, Fin 19, Fin 18, Fin 18, Fin 18, Fin 18]
     = (Fin 18, Fin (6004799503160661 / 2 ^ 54), Fin (3 / 4))"
proof -
  have v: "rnd (1 / 3) = Fin (6004799503160661 / 2 ^ 54)"
    using rnd_eval [of "- 2" "1 / 3"] by (simp add: round_even_def overflow_def)
  have o: "rnd (1 + 6004799503160661 / 2 ^ 54) = Fin (6004799503160661 / 2 ^ 52)"
    using rnd_eval [of 0 "1 + 6004799503160661 / 2 ^ 54"]
    by (simp add: round_even_def overflow_def)
  have s: "rnd (1 / (6004799503160661 / 2 ^ 52)) = Fin (3 / 4)"
    using rnd_eval [of "- 1" "1 / (6004799503160661 / 2 ^ 52)"]
    by (simp add: round_even_def overflow_def)
  show ?thesis
    using v o s
    by (simp add: calculateStability64_def reduce_add64_def fpow2_def fsub_def rnd_numeral
          rnd_neg_numeral)
qed

lemma calc_10_10_10:
  "calculateStability64 [Fin 10, Fin 10, Fin 10] = (Fin 10, Fin 0, Fin 1)"
proof -
  have "fst (calculateStability64 (replicate 3 (Fin (real_of_int 10)))) = Fin (real_of_int 10)"
    by (rule constant_window_int_mean) simp_all
  then have "calculateStability64 (replicate 3 (Fin 10)) = (Fin 10, Fin 0, Fin 1)"
    using constant_window_exact_mean [of 3 10] by simp
  then show ?thesis by (simp add: numeral_3_eq_3)
qed

lemma converge_15:
  "hardLimits64 (fadd (fmul (Fin (3 / 2)) (lit 0.99)) (lit 0.01))
     = Fin (6732881442918891 / 2 ^ 52)"
proof -
  have l99: "lit 0.99 = Fin (4458563631096791 / 2 ^ 52)"
    using rnd_eval [of "- 1" "0.99"] by (simp add: lit_def round_even_def overflow_def)
  have l01: "lit 0.01 = Fin (5764607523034235 / 2 ^ 59)"
    using rnd_eval [of "- 7" "0.01"] by (simp add: lit_def round_even_def overflow_def)
  have p: "rnd (3 / 2 * (4458563631096791 / 2 ^ 52)) = Fin (3343922723322593 / 2 ^ 51)"
    using rnd_eval [of 0 "3 / 2 * (4458563631096791 / 2 ^ 52)"]
    by (simp add: round_even_def overflow_def)
  have s: "rnd (3343922723322593 / 2 ^ 51 + 5764607523034235 / 2 ^ 59)
             = Fin (6732881442918891 / 2 ^ 52)"
    using rnd_eval [of 0 "3343922723322593 / 2 ^ 51 + 5764607523034235 / 2 ^ 59"]
    by (simp add: round_even_def overflow_def)
  show ?thesis
    using l99 l01 p s lit_03 lit_17 by (simp add: hardLimits64_def)
qed

lemma default_15:
  "learn64 CONFIG (Fin 10) (Fin (6004799503160661 / 2 ^ 53)) (Fin (3 / 2))
     = (Fin (6725375443539941 / 2 ^ 52), Default_Convergence)"
proof -
  have d: "rnd (- (1 / 2)) = Fin (- (1 / 2))"
    using rnd_exact [of "- (1 / 2)" "- 1" "- 1"] by (simp add: overflow_def)
  have p: "rnd (5764607523034235 / 2 ^ 58 * (6004799503160661 / 2 ^ 53))
             = Fin (3843071682022823 / 2 ^ 58)"
    using rnd_eval [of "- 7" "5764607523034235 / 2 ^ 58 * (6004799503160661 / 2 ^ 53)"]
    by (simp add: round_even_def overflow_def)
  have q: "rnd (- (1 / 2) * (3843071682022823 / 2 ^ 58)) = Fin (- (3843071682022823 / 2 ^ 59))"
    using rnd_exact [of "- (3843071682022823 / 2 ^ 59)" "- 3843071682022823" "- 59"]
    by (simp add: overflow_def)
  have s: "rnd (3 / 2 + - (3843071682022823 / 2 ^ 59)) = Fin (6725375443539941 / 2 ^ 52)"
    using rnd_eval [of 0 "3 / 2 + - (3843071682022823 / 2 ^ 59)"]
    by (simp add: round_even_def overflow_def)
  show ?thesis
    using d p q s lit_04 lit_06 lit_07 lit_002
    by (simp add: learn64_def CONFIG_def fsub_def)
qed

lemma hardLimits64_default_15:
  "hardLimits64 (Fin (6725375443539941 / 2 ^ 52)) = Fin (6725375443539941 / 2 ^ 52)"
  using lit_03 lit_17 by (simp add: hardLimits64_def)

text \<open>
  The bounds on the exact embedding carry over: for a non-empty window of non-negative
  finite numbers and a stored factor of moderate size (or none), no operation of Steps 3
  and 4 yields \<^verbatim>\<open>NaN\<close>, the stability is a finite number in [0, 1] and the limited factor
  lies between the binary64 numbers 0.3 and 1.7.
\<close>

lemma nearest_abs_upper:
  assumes "x \<noteq> 0"
  shows "\<bar>nearest x\<bar> \<le> 2 powi (expo x + 1)"
proof (cases "0 < x")
  case True
  then show ?thesis using nearest_upper [of x] nearest_nonneg [of x] by simp
next
  case False
  then have neg: "x < 0" using assms by simp
  have "\<bar>x\<bar> < real_of_int (2 ^ 53) * ulp x"
    using expo_upper [OF assms] by (simp only: ulp_times_53)
  then have "- real_of_int (2 ^ 53) * ulp x \<le> x" using neg by linarith
  then have "real_of_int (- (2 ^ 53)) \<le> x / ulp x"
    using ulp_pos [of x] by (simp add: pos_le_divide_eq)
  then have "- (2 ^ 53) \<le> round_even (x / ulp x)" by (rule round_even_ge)
  then have lo: "- real_of_int (2 ^ 53) \<le> real_of_int (round_even (x / ulp x))" by linarith
  have "x / ulp x \<le> real_of_int 0" using neg ulp_pos [of x] by (simp add: divide_le_0_iff)
  then have "round_even (x / ulp x) \<le> 0" by (rule round_even_le)
  then have hi: "real_of_int (round_even (x / ulp x)) \<le> 0" by simp
  have "\<bar>nearest x\<bar> = - real_of_int (round_even (x / ulp x)) * ulp x"
    using hi ulp_pos [of x] by (simp add: nearest_def abs_mult)
  also have "\<dots> \<le> real_of_int (2 ^ 53) * ulp x"
    using lo ulp_pos [of x] by (intro mult_right_mono) simp_all
  finally show ?thesis by (simp only: ulp_times_53)
qed

lemma rnd_small_finite:
  assumes "\<bar>x\<bar> < 2 powi 1023"
  shows "\<exists>r. rnd x = Fin r"
proof (cases "x = 0")
  case True
  then show ?thesis by simp
next
  case False
  have "expo x + 1 \<le> 1023"
  proof (cases "2 powi (- 1022) \<le> \<bar>x\<bar>")
    case True
    then have "2 powi (expo x) \<le> \<bar>x\<bar>" by (rule expo_lower)
    then have "(2::real) powi (expo x) < 2 powi 1023" using assms by linarith
    then have "expo x < 1023" by (rule pow2_less_imp)
    then show ?thesis by simp
  next
    case False
    then have "expo x = - 1022" using expo_subnormal [OF \<open>x \<noteq> 0\<close>] by simp
    then show ?thesis by simp
  qed
  then have "(2::real) powi (expo x + 1) \<le> 2 powi 1023"
    by (intro power_int_increasing) simp_all
  moreover have "(2::real) powi 1023 < overflow" by (simp add: overflow_def)
  ultimately have "\<bar>nearest x\<bar> < overflow" using nearest_abs_upper [OF False] by linarith
  then show ?thesis using False by (simp add: rnd_def)
qed

lemma fmul_Fin_not_NaN: "fmul (Fin a) (Fin b) \<noteq> NaN"
  by simp

lemma fadd_Fin_not_NaN: "d \<noteq> NaN \<Longrightarrow> fadd (Fin a) d \<noteq> NaN"
  by (cases d) simp_all

lemma fadd_Fin_not_NaN2: "d \<noteq> NaN \<Longrightarrow> fadd d (Fin a) \<noteq> NaN"
  by (cases d) simp_all

lemma hardLimits64_between:
  assumes "lit 0.3 = Fin lo" and "lit 1.7 = Fin hi" and "lo \<le> hi" and "d \<noteq> NaN"
  shows "\<exists>f. hardLimits64 d = Fin f \<and> lo \<le> f \<and> f \<le> hi"
  using assms by (cases d) (auto simp: hardLimits64_def Let_def)

lemma hardLimits64_bounds:
  assumes "d \<noteq> NaN"
  shows "\<exists>f. hardLimits64 d = Fin f \<and> 5404319552844595 / 2 ^ 54 \<le> f
              \<and> f \<le> 7656119366529843 / 2 ^ 52"
  by (rule hardLimits64_between [OF lit_03 lit_17 _ assms]) simp

lemma learn64_not_NaN:
  assumes "nonneg mean" and "stability = Fin s" and "0 \<le> s" and "s \<le> 1"
    and "\<bar>p\<bar> < 2 powi 1022"
  shows "fst (learn64 CONFIG mean stability (Fin p)) \<noteq> NaN"
proof -
  define c :: real where "c = 5764607523034235 / 2 ^ 58"
  have c: "lit (basisLernrate CONFIG) = Fin c" "0 < c" "c < 1"
    using lit_002 by (simp_all add: CONFIG_def c_def)
  have case1: "fless mean (Fin 7) \<Longrightarrow>
      fadd (Fin p) (fmul (fdiv (fsub (Fin 7) mean) (Fin 7)) (fmul (Fin c) (Fin 2))) \<noteq> NaN"
  proof -
    assume "fless mean (Fin 7)"
    then obtain a where a: "mean = Fin a" "0 \<le> a" "a < 7"
      using assms(1) by (cases mean) simp_all
    have "\<bar>7 - a\<bar> < 2 powi 1023" using a by simp
    then obtain t where t: "rnd (7 - a) = Fin t" using rnd_small_finite by blast
    have "fmul (fdiv (Fin t) (Fin 7)) (fmul (Fin c) (Fin 2)) \<noteq> NaN"
    proof -
      have "\<bar>c * 2\<bar> < 2 powi 1023" using c by simp
      then obtain u where u: "rnd (c * 2) = Fin u" using rnd_small_finite by blast
      have "\<bar>t\<bar> < overflow" using rnd_Fin_bound [OF t] .
      then have "\<bar>t / 7\<bar> < 2 powi 1023" by (simp add: overflow_def)
      then obtain w where w: "rnd (t / 7) = Fin w" using rnd_small_finite by blast
      show ?thesis by (simp add: u w)
    qed
    then show ?thesis using a t by (simp add: fsub_def fadd_Fin_not_NaN)
  qed
  have dflt: "fadd (Fin p) (fmul (fsub (Fin 1) (Fin p)) (fmul (Fin c) (Fin s))) \<noteq> NaN"
  proof -
    have "\<bar>1 - p\<bar> \<le> 1 + \<bar>p\<bar>" by simp
    moreover have "1 + (2::real) powi 1022 < 2 powi 1023" by simp
    ultimately have "\<bar>1 - p\<bar> < 2 powi 1023" using assms(5) by linarith
    then obtain t where t: "rnd (1 - p) = Fin t" using rnd_small_finite by blast
    have "\<bar>c * s\<bar> \<le> 1" using c assms(3,4) by (simp add: abs_mult mult_le_one)
    then have "\<bar>c * s\<bar> < 2 powi 1023" by (simp add: less_le_trans [of _ 2])
    then obtain u where u: "rnd (c * s) = Fin u" using rnd_small_finite by blast
    show ?thesis using t u by (simp add: fsub_def fadd_Fin_not_NaN)
  qed
  obtain c95 where c95: "lit 0.95 = Fin c95"
    using rnd_small_finite [of "0.95"] by (auto simp: lit_def)
  obtain c99 where c99: "lit 0.99 = Fin c99"
    using rnd_small_finite [of "0.99"] by (auto simp: lit_def)
  obtain c01 where c01: "lit 0.01 = Fin c01"
    using rnd_small_finite [of "0.01"] by (auto simp: lit_def)
  have case2: "fmul (Fin p) (lit 0.95) \<noteq> NaN" using c95 by simp
  have case3: "fadd (fmul (Fin p) (lit 0.99)) (lit 0.01) \<noteq> NaN"
    using c99 c01 by (simp add: fadd_Fin_not_NaN2)
  show ?thesis
    using case1 case2 case3 dflt c(1) assms(2)
    by (simp add: learn64_def)
qed

lemma mean64_nonneg:
  assumes "window \<noteq> []" and "\<forall>x \<in> set window. \<exists>a. x = Fin a \<and> 0 \<le> a"
  shows "nonneg (fst (calculateStability64 window))"
proof -
  have n: "0 < real (length window)" using assms(1) by simp
  have "\<forall>x \<in> set window. nonneg x" using assms(2) by auto
  then have "nonneg (reduce_add64 window)" by (rule reduce_add64_nonneg)
  then have "nonneg (fdiv (reduce_add64 window) (Fin (real (length window))))"
    using n by (rule fdiv_nonneg)
  then show ?thesis by (simp add: calculateStability64_def Let_def)
qed

lemma stability64_unit:
  assumes "window \<noteq> []" and "\<forall>x \<in> set window. \<exists>a. x = Fin a \<and> 0 \<le> a"
  shows "\<exists>s. snd (snd (calculateStability64 window)) = Fin s \<and> 0 \<le> s \<and> s \<le> 1"
proof -
  let ?v = "fst (snd (calculateStability64 window))"
  have st: "snd (snd (calculateStability64 window)) = fdiv (Fin 1) (fadd (Fin 1) ?v)"
    by (simp add: calculateStability64_def Let_def)
  have "nonneg ?v" by (rule variance64_nonneg [OF assms])
  then consider "fadd (Fin 1) ?v = PInf"
    | r where "fadd (Fin 1) ?v = Fin r" "1 \<le> r" "r < overflow"
    using fadd_one_nonneg by blast
  then show ?thesis
  proof cases
    case 1
    then show ?thesis by (simp add: st)
  next
    case 2
    then obtain s where "fdiv (Fin 1) (Fin r) = Fin s" "0 < s" "s \<le> 1"
      using fdiv_one_unit by blast
    then show ?thesis using 2(1) by (simp add: st)
  qed
qed

lemma learningStep64_factor_bounds:
  assumes "window \<noteq> []" and "\<forall>x \<in> set window. \<exists>a. x = Fin a \<and> 0 \<le> a"
    and "prev = None \<or> (\<exists>p. prev = Some (Fin p) \<and> \<bar>p\<bar> < 2 powi 1022)"
  shows "\<exists>stability factor adjustment.
           learningStep64 CONFIG window prev = (Fin stability, Fin factor, adjustment)
           \<and> 0 \<le> stability \<and> stability \<le> 1
           \<and> 5404319552844595 / 2 ^ 54 \<le> factor \<and> factor \<le> 7656119366529843 / 2 ^ 52"
proof -
  obtain mean variance stability where
    calc: "calculateStability64 window = (mean, variance, stability)"
    by (cases "calculateStability64 window") auto
  obtain s where s: "stability = Fin s" "0 \<le> s" "s \<le> 1"
    using stability64_unit [OF assms(1,2)] by (auto simp: calc)
  have mn: "nonneg mean" using mean64_nonneg [OF assms(1,2)] by (simp add: calc)
  obtain p where p: "previousFactor64 prev = Fin p" "\<bar>p\<bar> < 2 powi 1022"
    using assms(3) by (auto simp: previousFactor64_def)
  have "fst (learn64 CONFIG mean stability (Fin p)) \<noteq> NaN"
    by (rule learn64_not_NaN [OF mn s p(2)])
  then obtain f where f: "hardLimits64 (fst (learn64 CONFIG mean stability (Fin p))) = Fin f"
    "5404319552844595 / 2 ^ 54 \<le> f" "f \<le> 7656119366529843 / 2 ^ 52"
    using hardLimits64_bounds by blast
  show ?thesis
    using learningStep64_unfold [OF calc, of CONFIG prev] s f by (simp add: p(1))
qed

section \<open>Properties\<close>

text \<open>
  C1. For every window of length at least 1 and every previous factor (also none), one
  learning step produces a performance factor in the closed interval [0.3, 1.7], for any
  configuration; the value written to the datapoint, rounded to four digits, stays in
  that interval.
\<close>

theorem C1_factor_within_bounds:
  assumes "length window \<ge> 1"
  shows "\<exists>stability factor adjustment.
           learningStep cfg window prev = Some (stability, factor, adjustment)
           \<and> 0.3 \<le> factor \<and> factor \<le> 1.7
           \<and> 0.3 \<le> toFixed4 factor \<and> toFixed4 factor \<le> 1.7"
proof -
  from assms have ne: "window \<noteq> []" by auto
  define f where "f = hardLimits (fst (learn cfg (mean_of window) (stability_of window)
                                       (previousFactor prev)))"
  have step: "learningStep cfg window prev =
                Some (stability_of window, f,
                      snd (learn cfg (mean_of window) (stability_of window) (previousFactor prev)))"
    unfolding f_def by (rule learningStep_nonempty [OF ne])
  have b: "0.3 \<le> f" "f \<le> 1.7"
    unfolding f_def using hardLimits_bounds by blast+
  have r: "0.3 \<le> toFixed4 f \<and> toFixed4 f \<le> 1.7" by (rule toFixed4_bounds [OF b])
  show ?thesis using step b r by blast
qed

theorem C1_factor_within_bounds_witness:
  "length [0, 0, 0 :: real] \<ge> 1
   \<and> (\<exists>stability factor adjustment.
         learningStep CONFIG [0, 0, 0] (Some 1.7) = Some (stability, factor, adjustment)
         \<and> 0.3 \<le> factor \<and> factor \<le> 1.7
         \<and> 0.3 \<le> toFixed4 factor \<and> toFixed4 factor \<le> 1.7)"
  using C1_factor_within_bounds [of "[0, 0, 0]" CONFIG "Some 1.7"] by simp

text \<open>
  C2, as stated: Regime C is selected exactly when the window mean lies in [8, 12] and the
  stability exceeds the threshold 0.6 that also gates Regime B. The window [9, 10, 10, 11]
  has the computed mean 10 and the computed stability 0.6666666666666666, above 0.6, and
  yet the script takes the default branch: from the factor 1.5 it yields
  1.4933333333333334, where the Regime C update would yield 1.4949999999999999.
\<close>

theorem C2_regime_C_counterexample:
  "calculateStability64 [Fin 9, Fin 10, Fin 10, Fin 11]
     = (Fin 10, Fin (1 / 2), Fin (6004799503160661 / 2 ^ 53))
   \<and> fle (Fin 8) (Fin 10) \<and> fle (Fin 10) (Fin 12)
   \<and> fless (lit 0.6) (Fin (6004799503160661 / 2 ^ 53))
   \<and> learningStep64 CONFIG [Fin 9, Fin 10, Fin 10, Fin 11] (Some (Fin (3 / 2)))
        = (Fin (6004799503160661 / 2 ^ 53), Fin (6725375443539941 / 2 ^ 52),
           Default_Convergence)
   \<and> hardLimits64 (fadd (fmul (Fin (3 / 2)) (lit 0.99)) (lit 0.01))
        = Fin (6732881442918891 / 2 ^ 52)"
  using calc_9_10_10_11 lit_06 default_15 hardLimits64_default_15 converge_15
    learningStep64_unfold [OF calc_9_10_10_11, of CONFIG "Some (Fin (3 / 2))"]
  by (simp add: previousFactor64_def)

text \<open>
  C2, amended: with every operation of the script rounded to binary64, Regime C (the
  third case) is selected exactly when the computed mean lies in [8, 12] and the computed
  stability exceeds 0.7, a threshold of its own and stricter than the 0.6 of Regime B;
  the adjustment is then previousFactor * 0.99 + 0.01, that is, convergence to 1 with the
  weight 0.99, followed by the hard limits.
\<close>

theorem C2_regime_C_amended:
  assumes "calculateStability64 window = (mean, variance, stability)"
  shows "(snd (snd (learningStep64 cfg window prev)) = Case3
            \<longleftrightarrow> fle (Fin 8) mean \<and> fle mean (Fin 12) \<and> fless (lit 0.7) stability)
         \<and> (fle (Fin 8) mean \<and> fle mean (Fin 12) \<and> fless (lit 0.7) stability \<longrightarrow>
              learningStep64 cfg window prev
                = (stability,
                   hardLimits64 (fadd (fmul (previousFactor64 prev) (lit 0.99)) (lit 0.01)),
                   Case3))"
proof -
  have sel: "snd (snd (learningStep64 cfg window prev)) = Case3
               \<longleftrightarrow> fle (Fin 8) mean \<and> fle mean (Fin 12) \<and> fless (lit 0.7) stability"
    using learn64_cases [of cfg mean stability "previousFactor64 prev"]
    by (simp add: learningStep64_unfold [OF assms])
  have val: "fle (Fin 8) mean \<and> fle mean (Fin 12) \<and> fless (lit 0.7) stability \<Longrightarrow>
               learn64 cfg mean stability (previousFactor64 prev)
                 = (fadd (fmul (previousFactor64 prev) (lit 0.99)) (lit 0.01), Case3)"
    using fle_band_excludes [of mean] by (simp add: learn64_def)
  show ?thesis
    using sel val by (auto simp: learningStep64_unfold [OF assms])
qed

theorem C2_regime_C_amended_witness:
  "calculateStability64 [Fin 10, Fin 10, Fin 10] = (Fin 10, Fin 0, Fin 1)
   \<and> fle (Fin 8) (Fin 10) \<and> fle (Fin 10) (Fin 12) \<and> fless (lit 0.7) (Fin 1)
   \<and> learningStep64 CONFIG [Fin 10, Fin 10, Fin 10] (Some (Fin (3 / 2)))
        = (Fin 1, Fin (6732881442918891 / 2 ^ 52), Case3)
   \<and> calculateStability64 [Fin 9, Fin 10, Fin 10, Fin 11]
        = (Fin 10, Fin (1 / 2), Fin (6004799503160661 / 2 ^ 53))
   \<and> fless (lit 0.6) (Fin (6004799503160661 / 2 ^ 53))
   \<and> \<not> fless (lit 0.7) (Fin (6004799503160661 / 2 ^ 53))
   \<and> snd (snd (learningStep64 CONFIG [Fin 9, Fin 10, Fin 10, Fin 11] (Some (Fin (3 / 2)))))
        \<noteq> Case3"
proof -
  have c: "fle (Fin 8) (Fin 10) \<and> fle (Fin 10) (Fin 12) \<and> fless (lit 0.7) (Fin 1)"
    using lit_07 by simp
  have n: "fless (lit 0.6) (Fin (6004799503160661 / 2 ^ 53))"
    "\<not> fless (lit 0.7) (Fin (6004799503160661 / 2 ^ 53))"
    using lit_06 lit_07 by simp_all
  have w1: "learningStep64 CONFIG [Fin 10, Fin 10, Fin 10] (Some (Fin (3 / 2)))
              = (Fin 1, Fin (6732881442918891 / 2 ^ 52), Case3)"
    using C2_regime_C_amended [OF calc_10_10_10, of CONFIG "Some (Fin (3 / 2))"] c converge_15
    by (simp add: previousFactor64_def)
  have w2: "snd (snd (learningStep64 CONFIG [Fin 9, Fin 10, Fin 10, Fin 11]
                        (Some (Fin (3 / 2))))) \<noteq> Case3"
    using C2_regime_C_amended [OF calc_9_10_10_11, of CONFIG "Some (Fin (3 / 2))"] n(2)
    by simp
  show ?thesis using calc_10_10_10 calc_9_10_10_11 c n w1 w2 by simp
qed

text \<open>
  C4, as stated: the stability of every non-empty window of non-negative finite numbers
  lies in (0, 1]. In the window [2^600, 0, 0, 0] the squared deviations overflow, the
  variance is infinite and the stability is exactly 0.
\<close>

theorem C4_stability_counterexample:
  "calculateStability64 hugeWindow = (Fin (2 ^ 598), PInf, Fin 0)"
proof -
  have a: "rnd (2 ^ 600) = Fin (2 ^ 600)"
    using rnd_exact [of "2 ^ 600" 1 600] by (simp add: overflow_def)
  have m: "rnd (2 ^ 600 / 4) = Fin (2 ^ 598)"
    using rnd_exact [of "2 ^ 598" 1 598] by (simp add: overflow_def)
  have d1: "rnd (2 ^ 600 - 2 ^ 598) = Fin (3 * 2 ^ 598)"
    using rnd_exact [of "3 * 2 ^ 598" 3 598] by (simp add: overflow_def)
  have d2: "rnd (- (2 ^ 598)) = Fin (- (2 ^ 598))"
    using rnd_exact [of "- (2 ^ 598)" "- 1" 598] by (simp add: overflow_def)
  have s1: "rnd (3 * 2 ^ 598 * (3 * 2 ^ 598)) = PInf"
    by (rule rnd_overflow) (simp add: overflow_def)
  have s2: "rnd (- (2 ^ 598) * - (2 ^ 598)) = PInf"
    by (rule rnd_overflow) (simp add: overflow_def)
  show ?thesis
    using a m d1 d2 s1 s2
    by (simp add: hugeWindow_def calculateStability64_def reduce_add64_def fpow2_def fsub_def)
qed

text \<open>
  C4, amended: for every non-empty window of non-negative finite numbers the script
  computes the stability as 1 / (1 + variance), where the variance is the mean of the
  squared deviations from the computed mean and every operation is rounded to binary64;
  the stability is a finite number in the closed interval [0, 1], and it is positive
  unless 1 + variance has overflowed to infinity.
\<close>

theorem C4_stability_amended:
  assumes "window \<noteq> []" and "\<forall>x \<in> set window. \<exists>a. x = Fin a \<and> 0 \<le> a"
  shows "\<exists>mean variance stability.
           calculateStability64 window = (mean, variance, Fin stability)
           \<and> mean = fdiv (reduce_add64 window) (Fin (real (length window)))
           \<and> variance = fdiv (reduce_add64 (map (\<lambda>x. fpow2 (fsub x mean)) window))
                              (Fin (real (length window)))
           \<and> Fin stability = fdiv (Fin 1) (fadd (Fin 1) variance)
           \<and> 0 \<le> stability \<and> stability \<le> 1
           \<and> (fadd (Fin 1) variance \<noteq> PInf \<longrightarrow> 0 < stability)"
proof -
  define mean where "mean = fdiv (reduce_add64 window) (Fin (real (length window)))"
  define variance where
    "variance = fdiv (reduce_add64 (map (\<lambda>x. fpow2 (fsub x mean)) window))
                     (Fin (real (length window)))"
  have calc: "calculateStability64 window
                = (mean, variance, fdiv (Fin 1) (fadd (Fin 1) variance))"
    by (simp add: calculateStability64_def Let_def mean_def variance_def)
  have "nonneg variance"
    using variance64_nonneg [OF assms] by (simp add: calc)
  then consider "fadd (Fin 1) variance = PInf"
    | r where "fadd (Fin 1) variance = Fin r" "1 \<le> r" "r < overflow"
    using fadd_one_nonneg by blast
  then show ?thesis
  proof cases
    case 1
    then have "fdiv (Fin 1) (fadd (Fin 1) variance) = Fin 0" by simp
    then show ?thesis using calc mean_def variance_def 1 by auto
  next
    case 2
    then obtain s where "fdiv (Fin 1) (Fin r) = Fin s" "0 < s" "s \<le> 1"
      using fdiv_one_unit by blast
    then show ?thesis using calc mean_def variance_def 2(1) by auto
  qed
qed

theorem C4_stability_amended_witness:
  "[Fin 9, Fin 10, Fin 10, Fin 11] \<noteq> []
   \<and> (0::real) \<le> 9 \<and> (0::real) \<le> 10 \<and> (0::real) \<le> 11
   \<and> (\<exists>mean variance stability.
         calculateStability64 [Fin 9, Fin 10, Fin 10, Fin 11] = (mean, variance, Fin stability)
         \<and> 0 \<le> stability \<and> stability \<le> 1)
   \<and> calculateStability64 [Fin 9, Fin 10, Fin 10, Fin 11]
        = (Fin 10, Fin (1 / 2), Fin (6004799503160661 / 2 ^ 53))"
proof -
  have h1: "[Fin 9, Fin 10, Fin 10, Fin 11] \<noteq> []" by simp
  have h2: "\<forall>x \<in> set [Fin 9, Fin 10, Fin 10, Fin 11]. \<exists>a. x = Fin a \<and> 0 \<le> a" by simp
  from C4_stability_amended [OF h1 h2]
  have "\<exists>mean variance stability.
         calculateStability64 [Fin 9, Fin 10, Fin 10, Fin 11] = (mean, variance, Fin stability)
         \<and> 0 \<le> stability \<and> stability \<le> 1"
    by blast
  then show ?thesis using h1 calc_9_10_10_11 by simp
qed

text \<open>
  C5. For every window whose computed mean exceeds 16 and whose computed stability
  exceeds 0.6 the script takes its second case (Regime B): before the hard limits the new
  factor is previousFactor * 0.95 (rounded), whatever the distance of the mean from 16. A
  window of six samples with mean 18 and such a stability turns the factor 1.2 into 1.14.
\<close>

theorem C5_regime_B:
  assumes "calculateStability64 window = (mean, variance, stability)"
    and "fless (Fin 16) mean" and "fless (lit 0.6) stability"
  shows "learn64 cfg mean stability previous = (fmul previous (lit 0.95), Case2)
         \<and> learningStep64 cfg window prev
             = (stability, hardLimits64 (fmul (previousFactor64 prev) (lit 0.95)), Case2)
         \<and> (length window = 6 \<and> mean = Fin 18 \<and> prev = Some (lit 1.2) \<longrightarrow>
              learningStep64 cfg window prev = (stability, lit 1.14, Case2))"
proof -
  have l: "\<And>r. learn64 cfg mean stability r = (fmul r (lit 0.95), Case2)"
    using assms(2,3) fless_16_not_7 [OF assms(2)] by (simp add: learn64_def)
  have st: "learningStep64 cfg window prev
              = (stability, hardLimits64 (fmul (previousFactor64 prev) (lit 0.95)), Case2)"
    by (simp add: learningStep64_unfold [OF assms(1)] l)
  have ex: "hardLimits64 (fmul (lit 1.2) (lit 0.95)) = lit 1.14"
    using mul_12_095 hardLimits64_114 lit_12 lit_095 lit_114 by simp
  show ?thesis
    using l st ex by (auto simp: previousFactor64_def)
qed

theorem C5_regime_B_witness:
  "calculateStability64 [Fin 17, Fin 19, Fin 18, Fin 18, Fin 18, Fin 18]
     = (Fin 18, Fin (6004799503160661 / 2 ^ 54), Fin (3 / 4))
   \<and> fless (Fin 16) (Fin 18) \<and> fless (lit 0.6) (Fin (3 / 4))
   \<and> length [Fin 17, Fin 19, Fin 18, Fin 18, Fin 18, Fin 18] = 6
   \<and> learningStep64 CONFIG [Fin 17, Fin 19, Fin 18, Fin 18, Fin 18, Fin 18] (Some (lit 1.2))
        = (Fin (3 / 4), lit 1.14, Case2)
   \<and> lit 1.14 = Fin (5134103575202365 / 2 ^ 52)"
proof -
  have a: "fless (Fin 16) (Fin 18)" by simp
  have b: "fless (lit 0.6) (Fin (3 / 4))" using lit_06 by simp
  have len: "length [Fin 17, Fin 19, Fin 18, Fin 18, Fin 18, Fin 18] = 6" by simp
  have "learningStep64 CONFIG [Fin 17, Fin 19, Fin 18, Fin 18, Fin 18, Fin 18] (Some (lit 1.2))
          = (Fin (3 / 4), lit 1.14, Case2)"
    using C5_regime_B [OF calc_17_19 a b, of CONFIG "Fin 0" "Some (lit 1.2)"] len by blast
  then show ?thesis using calc_17_19 a b lit_114 by simp
qed




text \<open>
  C7. If the history query is rejected or answers with an error, with no data or with an
  empty array, or if fewer than 3 samples remain after the filter, the learning cycle
  returns the state store as it was: neither the performance factor nor the stability is
  written.
\<close>

theorem C7_abort_without_write:
  assumes "reply = Rejected
           \<or> (\<exists>res. reply = Reply True res)
           \<or> reply = Reply False None
           \<or> reply = Reply False (Some [])
           \<or> (\<exists>items. reply = Reply False (Some items) \<and> length (sanitize items) < 3)"
  shows "main cfg st reply = Some st"
  using assms by (auto simp: main_def queryHistory_def Let_def)

theorem C7_abort_without_write_witness:
  "main CONFIG liveStates Rejected = Some liveStates
   \<and> main CONFIG liveStates (Reply True (Some [Some 5, Some 6, Some 7])) = Some liveStates
   \<and> main CONFIG liveStates (Reply False None) = Some liveStates
   \<and> main CONFIG liveStates (Reply False (Some [])) = Some liveStates
   \<and> length (sanitize [Some 5, None, Some (- 1), Some 6]) < 3
   \<and> main CONFIG liveStates (Reply False (Some [Some 5, None, Some (- 1), Some 6]))
       = Some liveStates"
  using C7_abort_without_write [of Rejected CONFIG liveStates]
        C7_abort_without_write [of "Reply True (Some [Some 5, Some 6, Some 7])" CONFIG liveStates]
        C7_abort_without_write [of "Reply False None" CONFIG liveStates]
        C7_abort_without_write [of "Reply False (Some [])" CONFIG liveStates]
        C7_abort_without_write [of "Reply False (Some [Some 5, None, Some (- 1), Some 6])" CONFIG
          liveStates]
  by simp

text \<open>
  C8, as stated: whenever the outdoor temperature is below the neutral temperature, the
  setpoint rises by (neutral - outdoor temperature) * heizkurvenfaktor * reglerleistung.
  At an outdoor reading of -35 degrees, below the plausible range of the sensor, and with
  a window open, the room script adds nothing, although the outdoor temperature is below
  the neutral 12 degrees.
\<close>

theorem C8_weather_compensation_counterexample:
  "aussenTempSensor deepFrost = Some (- 35) \<and> (- 35 :: real) < aussenTempNeutral ROOM_CONFIG
   \<and> baseTemperature ROOM_CONFIG deepFrost = (21, False)
   \<and> setpointAfterWeather ROOM_CONFIG deepFrost = 21
   \<and> aussenTempSensor windowOpen = Some 2 \<and> (2 :: real) < aussenTempNeutral ROOM_CONFIG
   \<and> baseTemperature ROOM_CONFIG windowOpen = (12, True)
   \<and> setpointAfterWeather ROOM_CONFIG windowOpen = 12"
  by (simp add: deepFrost_def windowOpen_def winterEvening_def ROOM_CONFIG_def
        baseTemperature_def setpointAfterWeather_def weatherCompensation_def aussenSensorOK_def
        or_default_def fensterIstOffen_def tuerIstGeschlossen_def)

text \<open>
  C8, amended: in the room script, when the cycle is no special case (heating period
  active, no window open) and the outdoor reading is plausible (between -30 and 60) and
  below the neutral temperature, the weather compensation raises the setpoint by
  (neutral - outdoor temperature) * heizkurvenfaktor * reglerleistung, where
  reglerleistung is the learned factor read from the state store. When the persisted
  factor is absent, the room script takes 1 in its place, and the learning step starts
  its adjustment from 1.
\<close>

theorem C8_learned_factor_amended:
  "(baseTemperature cfg states = (base, False) \<and> aussenTempSensor states = Some t
      \<and> - 30 < t \<and> t < 60 \<and> t < aussenTempNeutral cfg \<longrightarrow>
      setpointAfterWeather cfg states
        = base + (aussenTempNeutral cfg - t)
                 * (heizkurvenfaktor cfg * or_default (reglerleistung states) 1))
   \<and> (reglerleistung states = Some r \<and> r \<noteq> 0 \<longrightarrow> or_default (reglerleistung states) 1 = r)
   \<and> (reglerleistung states = None \<longrightarrow> or_default (reglerleistung states) 1 = 1)
   \<and> (calculateStability64 window = (mean, variance, stability) \<longrightarrow>
        learningStep64 lcfg window None
          = (stability, hardLimits64 (fst (learn64 lcfg mean stability (Fin 1))),
             snd (learn64 lcfg mean stability (Fin 1))))"
  using learningStep64_unfold [of window mean variance stability lcfg None]
  by (simp add: setpointAfterWeather_def weatherCompensation_def aussenSensorOK_def
        or_default_def previousFactor64_def split: option.splits)

theorem C8_learned_factor_amended_witness:
  "baseTemperature ROOM_CONFIG winterEvening = (21, False)
   \<and> aussenTempSensor winterEvening = Some 2
   \<and> - 30 < (2::real) \<and> (2::real) < 60 \<and> 2 < aussenTempNeutral ROOM_CONFIG
   \<and> reglerleistung winterEvening = Some 1.2 \<and> (1.2::real) \<noteq> 0
   \<and> setpointAfterWeather ROOM_CONFIG winterEvening = 21 + (12 - 2) * (0.25 * 1.2)
   \<and> reglerleistung (winterEvening \<lparr> reglerleistung := None \<rparr>) = None
   \<and> setpointAfterWeather ROOM_CONFIG (winterEvening \<lparr> reglerleistung := None \<rparr>)
        = 21 + (12 - 2) * (0.25 * 1)
   \<and> calculateStability64 [Fin 17, Fin 19, Fin 18, Fin 18, Fin 18, Fin 18]
        = (Fin 18, Fin (6004799503160661 / 2 ^ 54), Fin (3 / 4))
   \<and> learningStep64 CONFIG [Fin 17, Fin 19, Fin 18, Fin 18, Fin 18, Fin 18] None
        = (Fin (3 / 4), lit 0.95, Case2)"
proof -
  have b: "baseTemperature ROOM_CONFIG winterEvening = (21, False)"
    by (simp add: baseTemperature_def ROOM_CONFIG_def winterEvening_def or_default_def
          fensterIstOffen_def tuerIstGeschlossen_def)
  have b': "baseTemperature ROOM_CONFIG (winterEvening \<lparr> reglerleistung := None \<rparr>) = (21, False)"
    by (simp add: baseTemperature_def ROOM_CONFIG_def winterEvening_def or_default_def
          fensterIstOffen_def tuerIstGeschlossen_def)
  have c: "aussenTempNeutral ROOM_CONFIG = 12" "heizkurvenfaktor ROOM_CONFIG = 0.25"
    by (simp_all add: ROOM_CONFIG_def)
  have s: "aussenTempSensor winterEvening = Some 2" "reglerleistung winterEvening = Some 1.2"
    by (simp_all add: winterEvening_def)
  have room:
    "setpointAfterWeather ROOM_CONFIG winterEvening = 21 + (12 - 2) * (0.25 * 1.2)"
    "setpointAfterWeather ROOM_CONFIG (winterEvening \<lparr> reglerleistung := None \<rparr>)
       = 21 + (12 - 2) * (0.25 * 1)"
    using C8_learned_factor_amended [of ROOM_CONFIG winterEvening 21 2 "1.2"]
          C8_learned_factor_amended
            [of ROOM_CONFIG "winterEvening \<lparr> reglerleistung := None \<rparr>" 21 2 "1.2"]
    by (simp_all add: b b' c s)
  have l: "learn64 CONFIG (Fin 18) (Fin (3 / 4)) (Fin 1) = (lit 0.95, Case2)"
    using lit_06 lit_095 rnd_095_exact by (simp add: learn64_def)
  have h: "hardLimits64 (lit 0.95) = lit 0.95"
    using lit_03 lit_17 lit_095 by (simp add: hardLimits64_def)
  have est: "learningStep64 CONFIG [Fin 17, Fin 19, Fin 18, Fin 18, Fin 18, Fin 18] None
               = (Fin (3 / 4), lit 0.95, Case2)"
    using C8_learned_factor_amended
            [of ROOM_CONFIG winterEvening 21 2 "1.2"
                "[Fin 17, Fin 19, Fin 18, Fin 18, Fin 18, Fin 18]" "Fin 18"
                "Fin (6004799503160661 / 2 ^ 54)" "Fin (3 / 4)" CONFIG]
          calc_17_19 l h
    by simp
  show ?thesis
    using b s c room calc_17_19 est by (simp add: winterEvening_def)
qed

text \<open>
  C9. For every window of length at least 1 and every previous factor, the core
  computation returns a result: neither divisor (the window length, 1 + variance) is
  zero, so mean, variance and stability are real numbers, and the learning step yields a
  stability, a factor and a label.
\<close>

theorem C9_total:
  assumes "length window \<ge> 1"
  shows "real (length window) \<noteq> 0
         \<and> 1 + variance_of window \<noteq> 0
         \<and> (\<exists>mean variance stability. calculateStability window = Some (mean, variance, stability))
         \<and> (\<exists>stability factor adjustment.
               learningStep cfg window prev = Some (stability, factor, adjustment))"
proof -
  from assms have ne: "window \<noteq> []" by auto
  have "0 \<le> variance_of window" by (rule variance_of_nonneg)
  then have "1 + variance_of window \<noteq> 0" by linarith
  then show ?thesis
    using ne by (simp add: calculateStability_nonempty learningStep_nonempty)
qed

theorem C9_total_witness:
  "length [0 :: real] \<ge> 1
   \<and> (\<exists>stability factor adjustment.
         learningStep CONFIG [0] None = Some (stability, factor, adjustment))"
  using C9_total [of "[0]" CONFIG None] by simp

text \<open>
  C10. For every previous factor and every stability in (0, 1], the default update
  previous + (1 - previous) * 0.02 * stability lies weakly between the previous factor
  and 1: it stays on the same side of 1, and its distance to 1 does not grow.
\<close>

theorem C10_default_no_overshoot:
  assumes "0 < stability" and "stability \<le> 1"
  shows "(previous \<le> 1 \<longrightarrow>
            previous \<le> defaultConvergence CONFIG stability previous
            \<and> defaultConvergence CONFIG stability previous \<le> 1)
         \<and> (1 \<le> previous \<longrightarrow>
            1 \<le> defaultConvergence CONFIG stability previous
            \<and> defaultConvergence CONFIG stability previous \<le> previous)
         \<and> \<bar>1 - defaultConvergence CONFIG stability previous\<bar> \<le> \<bar>1 - previous\<bar>"
proof -
  define k where "k = basisLernrate CONFIG * stability"
  have k: "0 \<le> k" "k \<le> 1" using assms by (simp_all add: k_def CONFIG_def)
  have d: "defaultConvergence CONFIG stability previous = previous + (1 - previous) * k"
    by (simp add: defaultConvergence_def k_def)
  have e: "1 - (previous + (1 - previous) * k) = (1 - previous) * (1 - k)"
    by (simp add: algebra_simps)
  have up: "previous \<le> 1 \<Longrightarrow> 0 \<le> (1 - previous) * k \<and> 0 \<le> (1 - previous) * (1 - k)"
    using k by simp
  have down: "1 \<le> previous \<Longrightarrow> (1 - previous) * k \<le> 0 \<and> (1 - previous) * (1 - k) \<le> 0"
    using k by (simp add: mult_nonpos_nonneg)
  have "\<bar>(1 - previous) * (1 - k)\<bar> = \<bar>1 - previous\<bar> * (1 - k)"
    using k by (simp add: abs_mult)
  also have "\<dots> \<le> \<bar>1 - previous\<bar> * 1"
    using k by (intro mult_left_mono) simp_all
  finally have ab: "\<bar>(1 - previous) * (1 - k)\<bar> \<le> \<bar>1 - previous\<bar>" by simp
  show ?thesis
    unfolding d using up down ab e by (auto simp: )
qed

theorem C10_default_no_overshoot_witness:
  "(0::real) < 1 / 2 \<and> (1 / 2 :: real) \<le> 1
   \<and> (2 / 5 :: real) \<le> 1
   \<and> defaultConvergence CONFIG (1 / 2) (2 / 5) = 0.406
   \<and> (2 / 5 :: real) \<le> defaultConvergence CONFIG (1 / 2) (2 / 5)
   \<and> defaultConvergence CONFIG (1 / 2) (2 / 5) \<le> 1
   \<and> (1 :: real) \<le> 3 / 2
   \<and> defaultConvergence CONFIG (1 / 2) (3 / 2) = 1.495
   \<and> 1 \<le> defaultConvergence CONFIG (1 / 2) (3 / 2)
   \<and> defaultConvergence CONFIG (1 / 2) (3 / 2) \<le> 3 / 2"
  using C10_default_no_overshoot [of "1 / 2" "2 / 5"]
        C10_default_no_overshoot [of "1 / 2" "3 / 2"]
  by (simp add: defaultConvergence_def CONFIG_def)


end
